theory Spec2Isabelle
  imports Main "HOL-Library.Sublist"
begin

section \<open>Strings\<close>

text \<open>
  The script handles Python \<open>str\<close> values. They are modelled as \<open>string\<close> (lists of
  8-bit characters), which agrees with Python on ASCII text, the only text the external
  tools \<open>mtx\<close>, \<open>mt\<close>, \<open>lsscsi\<close> and \<open>ls\<close> print for device names, slots and volume tags.
  Logging (\<open>log\<close>, \<open>log_cmd_results\<close>, the \<open>debug\<close> switch) writes to the terminal and to
  the log file only and is left out; nothing the script computes depends on it.
\<close>

definition newline :: char where
  "newline = CHR 0x0A"

text \<open>The characters \<open>str.split()\<close> and \<open>str.rstrip()\<close> treat as white space (ASCII range).\<close>

definition is_space :: "char \<Rightarrow> bool" where
  "is_space c = (c \<in> set [CHR 0x09, CHR 0x0A, CHR 0x0B, CHR 0x0C, CHR 0x0D,
                            CHR 0x1C, CHR 0x1D, CHR 0x1E, CHR 0x1F, CHR 0x20])"

text \<open>The regular-expression classes \<open>\d\<close>, \<open>[0-9]\<close>, \<open>\w\<close> and \<open>.\<close> (ASCII range).\<close>

definition is_digit :: "char \<Rightarrow> bool" where
  "is_digit c = (c \<in> set ''0123456789'')"

definition is_word :: "char \<Rightarrow> bool" where
  "is_word c = (c \<in> set ''abcdefghijklmnopqrstuvwxyzABCDEFGHIJKLMNOPQRSTUVWXYZ0123456789_'')"

definition not_nl :: "char \<Rightarrow> bool" where
  "not_nl c = (c \<noteq> newline)"

definition any_char :: "char \<Rightarrow> bool" where
  "any_char c = True"

text \<open>\<open>str(n)\<close> for a non-negative integer.\<close>

definition digit_char :: "nat \<Rightarrow> char" where
  "digit_char d = ''0123456789'' ! d"

function str_nat :: "nat \<Rightarrow> string" where
  "str_nat n = (if n < 10 then [digit_char n] else str_nat (n div 10) @ [digit_char (n mod 10)])"
  by pat_completeness auto
termination
  by (relation "measure (\<lambda>n. n)") auto

text \<open>\<open>s.rstrip('\n')\<close>, \<open>s.rstrip()\<close>, \<open>s.split('\n')\<close> and \<open>s.split()\<close>.\<close>

definition rstrip_chars :: "(char \<Rightarrow> bool) \<Rightarrow> string \<Rightarrow> string" where
  "rstrip_chars P s = rev (dropWhile P (rev s))"

fun split_on :: "char \<Rightarrow> string \<Rightarrow> string list" where
  "split_on d [] = [[]]"
| "split_on d (c # cs) =
     (if c = d then [] # split_on d cs
      else (case split_on d cs of [] \<Rightarrow> [[c]] | w # ws \<Rightarrow> (c # w) # ws))"

definition split_ws :: "string \<Rightarrow> string list" where
  "split_ws s = filter (\<lambda>w. w \<noteq> []) (map (filter (\<lambda>c. \<not> is_space c))
                  (foldr (\<lambda>c acc. if is_space c then [] # acc
                                   else (case acc of [] \<Rightarrow> [[c]] | w # ws \<Rightarrow> (c # w) # ws))
                         s [[]]))"

text \<open>\<open>sep.join(xs)\<close>.\<close>

fun join :: "string \<Rightarrow> string list \<Rightarrow> string" where
  "join sep [] = []"
| "join sep [x] = x"
| "join sep (x # y # ys) = x @ sep @ join sep (y # ys)"

text \<open>
  \<open>s.replace(old, new)\<close>: every non-overlapping occurrence of \<open>old\<close>, scanning from the
  left. For an empty \<open>old\<close> Python puts \<open>new\<close> before every character and at the end.
\<close>

function replace :: "string \<Rightarrow> string \<Rightarrow> string \<Rightarrow> string" where
  "replace old new s =
     (if old = [] then new @ concat (map (\<lambda>c. c # new) s)
      else if s = [] then []
      else if prefix old s then new @ replace old new (drop (length old) s)
      else hd s # replace old new (tl s))"
  by pat_completeness auto
termination
  by (relation "measure (\<lambda>(old, new, s). length s)") auto

section \<open>Regular expressions\<close>

text \<open>
  The patterns of the script are sequences of literals, single character classes with the
  quantifiers \<open>?\<close>, \<open>*\<close>, \<open>+\<close> and \<open>+?\<close>, and capture groups that are not nested. An
  \<open>item list\<close> writes such a pattern down piece by piece; \<open>x+\<close> is \<open>One x\<close> followed by
  \<open>Star x\<close> and \<open>x+?\<close> is \<open>One x\<close> followed by \<open>LazyStar x\<close>.

  \<open>rmatch\<close> is the backtracking matcher of Python's \<open>re\<close>: a greedy quantifier first tries
  to take one more character and gives it back only when the rest of the pattern fails,
  a lazy one first tries the rest of the pattern. The result is the first success in that
  order: the captured groups and the text left after the match. The third argument holds
  the text of the group that is open, the fourth the groups already closed.
\<close>

datatype item =
    Lit string
  | One "char \<Rightarrow> bool"
  | Opt "char \<Rightarrow> bool"
  | Star "char \<Rightarrow> bool"
  | LazyStar "char \<Rightarrow> bool"
  | GOpen
  | GClose

fun consume :: "string \<Rightarrow> string option \<Rightarrow> string option" where
  "consume t None = None"
| "consume t (Some a) = Some (a @ t)"

fun rmatch :: "item list \<Rightarrow> string \<Rightarrow> string option \<Rightarrow> string list
    \<Rightarrow> (string list \<times> string) option" where
  "rmatch [] s g caps = Some (caps, s)"
| "rmatch (Lit l # r) s g caps =
     (if prefix l s then rmatch r (drop (length l) s) (consume l g) caps else None)"
| "rmatch (One c # r) [] g caps = None"
| "rmatch (One c # r) (x # xs) g caps =
     (if c x then rmatch r xs (consume [x] g) caps else None)"
| "rmatch (Opt c # r) [] g caps = rmatch r [] g caps"
| "rmatch (Opt c # r) (x # xs) g caps =
     (if c x
      then (case rmatch r xs (consume [x] g) caps of
              Some y \<Rightarrow> Some y
            | None \<Rightarrow> rmatch r (x # xs) g caps)
      else rmatch r (x # xs) g caps)"
| "rmatch (Star c # r) [] g caps = rmatch r [] g caps"
| "rmatch (Star c # r) (x # xs) g caps =
     (if c x
      then (case rmatch (Star c # r) xs (consume [x] g) caps of
              Some y \<Rightarrow> Some y
            | None \<Rightarrow> rmatch r (x # xs) g caps)
      else rmatch r (x # xs) g caps)"
| "rmatch (LazyStar c # r) [] g caps = rmatch r [] g caps"
| "rmatch (LazyStar c # r) (x # xs) g caps =
     (case rmatch r (x # xs) g caps of
        Some y \<Rightarrow> Some y
      | None \<Rightarrow> if c x then rmatch (LazyStar c # r) xs (consume [x] g) caps else None)"
| "rmatch (GOpen # r) s g caps = rmatch r s (Some []) caps"
| "rmatch (GClose # r) s g caps =
     (case g of None \<Rightarrow> rmatch r s None caps | Some t \<Rightarrow> rmatch r s None (caps @ [t]))"

text \<open>
  \<open>re.search(p, s)\<close>: the match at the leftmost position that has one, as the pair of
  \<open>group(0)\<close> and the captured groups.
\<close>

fun re_search :: "item list \<Rightarrow> string \<Rightarrow> (string \<times> string list) option" where
  "re_search p [] =
     (case rmatch p [] None [] of Some (caps, rest) \<Rightarrow> Some ([], caps) | None \<Rightarrow> None)"
| "re_search p (x # xs) =
     (case rmatch p (x # xs) None [] of
        Some (caps, rest) \<Rightarrow> Some (take (length (x # xs) - length rest) (x # xs), caps)
      | None \<Rightarrow> re_search p xs)"

text \<open>
  \<open>re.findall(p, s)\<close> for a pattern without groups: the texts of the non-overlapping
  matches, from the left. \<open>re.sub(p, repl, s)\<close> replaces each of these matches by the
  replacement, which is given as a function of the captured groups. No pattern of the
  script matches the empty string; the model moves on by one character after an empty
  match.
\<close>

function findall :: "item list \<Rightarrow> string \<Rightarrow> string list" where
  "findall p s =
     (case rmatch p s None [] of
        Some (caps, rest) \<Rightarrow>
          if length rest < length s then take (length s - length rest) s # findall p rest
          else [] # (case s of [] \<Rightarrow> [] | x # xs \<Rightarrow> findall p xs)
      | None \<Rightarrow> (case s of [] \<Rightarrow> [] | x # xs \<Rightarrow> findall p xs))"
  by pat_completeness auto
termination
  by (relation "measure (\<lambda>(p, s). length s)") auto

function re_sub :: "item list \<Rightarrow> (string list \<Rightarrow> string) \<Rightarrow> string \<Rightarrow> string" where
  "re_sub p repl s =
     (case rmatch p s None [] of
        Some (caps, rest) \<Rightarrow>
          if length rest < length s then repl caps @ re_sub p repl rest
          else repl caps @ (case s of [] \<Rightarrow> [] | x # xs \<Rightarrow> x # re_sub p repl xs)
      | None \<Rightarrow> (case s of [] \<Rightarrow> [] | x # xs \<Rightarrow> x # re_sub p repl xs))"
  by pat_completeness auto
termination
  by (relation "measure (\<lambda>(p, repl, s). length s)") auto

text \<open>
  \<open>re.sub\<close> for a pattern that starts with \<open>^\<close> (without \<open>re.MULTILINE\<close>): only a match at
  the start of the text counts.
\<close>

definition re_sub_bol :: "item list \<Rightarrow> (string list \<Rightarrow> string) \<Rightarrow> string \<Rightarrow> string" where
  "re_sub_bol p repl s =
     (case rmatch p s None [] of Some (caps, rest) \<Rightarrow> repl caps @ rest | None \<Rightarrow> s)"

section \<open>Shell commands and the state of the script\<close>

text \<open>
  \<open>sys.exit(n)\<close> and the exceptions the script can raise. \<open>OutsideModel\<close> marks the one
  place where the model does not follow Python (see \<open>resolve_byid\<close>).
\<close>

datatype error = Exit int | ValueError | IndexError | NameError | OutsideModel

text \<open>The fields of a \<open>subprocess.run()\<close> result that the script reads.\<close>

record shell_result =
  returncode :: int
  stdout :: string
  stderr :: string

text \<open>The shell commands of the script, and the command line of each.\<close>

datatype command =
    Uname
  | MtVersionMtSt
  | MtVersionCpio
  | LsscsiLibs
  | Lsscsi
  | LsById
  | LsscsiDrives
  | MtOffline string
  | MtxStatus string
  | MtxFullSlots string
  | MtxLoad string string nat
  | MtxUnload string string nat
  | MtStatus string

fun cmd_str :: "command \<Rightarrow> string" where
  \<open>cmd_str Uname = ''uname''\<close>
| \<open>cmd_str MtVersionMtSt = ''mt --version | grep "mt-st"''\<close>
| \<open>cmd_str MtVersionCpio = ''mt --version | grep "GNU cpio"''\<close>
| \<open>cmd_str LsscsiLibs = ''lsscsi -g | grep mediumx | grep -o "sg[0-9]*" | sort''\<close>
| \<open>cmd_str Lsscsi = ''lsscsi -g''\<close>
| \<open>cmd_str LsById = ''ls -la /dev/tape/by-id''\<close>
| \<open>cmd_str LsscsiDrives = ''lsscsi -g | grep tape | grep -o "st[0-9]*" | sort''\<close>
| \<open>cmd_str (MtOffline drive_byid) = ''mt -f /dev/tape/by-id/'' @ drive_byid @ '' offline''\<close>
| \<open>cmd_str (MtxStatus lib) = ''mtx -f /dev/tape/by-id/'' @ lib @ '' status''\<close>
| \<open>cmd_str (MtxFullSlots lib) =
     ''mtx -f /dev/tape/by-id/'' @ lib @ '' status | grep "Storage Element [0-9]''
     @ [CHR 0x5C] @ ''{1,3'' @ [CHR 0x5C] @ ''}:Full" | grep -v "CLN"''\<close>
| \<open>cmd_str (MtxLoad lib slot drive) =
     ''mtx -f /dev/tape/by-id/'' @ lib @ '' load '' @ slot @ '' '' @ str_nat drive\<close>
| \<open>cmd_str (MtxUnload lib slot drive) =
     ''mtx -f /dev/tape/by-id/'' @ lib @ '' unload '' @ slot @ '' '' @ str_nat drive\<close>
| \<open>cmd_str (MtStatus drive_byid_node) = ''mt -f /dev/tape/by-id/'' @ drive_byid_node @ '' status''\<close>

text \<open>
  What the script has done to the outside world so far: the commands it has run and the
  settle delays it has waited, in order.
\<close>

datatype event = Cmd command | Sleep nat

text \<open>
  The outside world. \<open>shell\<close> gives the result of a command line from everything done
  before it; any deterministic behaviour of the hardware and the operating system is such
  a function, and a statement about every \<open>env\<close> is a statement about every behaviour.
  \<open>entropy\<close> is the source of \<open>randint\<close>, \<open>debian_version\<close> is
  \<open>os.path.isfile('/etc/debian_version')\<close>, \<open>date_stamp\<close> is the value of \<open>now()\<close> at
  startup.
\<close>

record env =
  shell :: "event list \<Rightarrow> string \<Rightarrow> shell_result"
  entropy :: "event list \<Rightarrow> nat"
  debian_version :: bool
  date_stamp :: string

text \<open>The variables set at the top of the script (\<open>debug\<close> only changes the log).\<close>

record config =
  sleep_secs :: nat
  offline :: bool
  libs_to_skip :: "string list"

text \<open>
  The global variables the script changes while it runs. \<open>lib_dict\<close> is a Python
  dictionary, which keeps its keys in the order of insertion: an association list.
  \<open>archive_device\<close> is unbound (\<open>None\<close>) until its first assignment. \<open>files\<close> holds the
  calls of \<open>write_res_file\<close>, as pairs of file name and text.
\<close>

record state =
  issued :: "event list"
  drives_byid_nodes_lst :: "string list"
  lib_dict :: "(string \<times> (string \<times> nat) list) list"
  archive_device :: "string option"
  files :: "(string \<times> string) list"

text \<open>
  A piece of the script takes the state and returns the new state with either a value or
  the error that ended the run.
\<close>

type_synonym 'a prog = "state \<Rightarrow> (error + 'a) \<times> state"

definition ret :: "'a \<Rightarrow> 'a prog" where
  "ret x = (\<lambda>s. (Inr x, s))"

definition raise :: "error \<Rightarrow> 'a prog" where
  "raise err = (\<lambda>s. (Inl err, s))"

definition and_then :: "'a prog \<Rightarrow> ('a \<Rightarrow> 'b prog) \<Rightarrow> 'b prog" where
  "and_then m f = (\<lambda>s. case m s of (Inl err, s') \<Rightarrow> (Inl err, s') | (Inr x, s') \<Rightarrow> f x s')"

lemma and_then_cong [fundef_cong]:
  assumes "m = m'" and "\<And>x s'. f x s' = f' x s'"
  shows "and_then m f s = and_then m' f' s"
  using assms by (simp add: and_then_def split: prod.splits sum.splits)

definition get_shell_result :: "env \<Rightarrow> command \<Rightarrow> shell_result prog" where
  "get_shell_result e c =
     (\<lambda>s. (Inr (shell e (issued s) (cmd_str c)), s\<lparr>issued := issued s @ [Cmd c]\<rparr>))"

definition chk_cmd_result :: "shell_result \<Rightarrow> unit prog" where
  "chk_cmd_result result =
     (if returncode result \<noteq> 0 then raise (Exit (returncode result)) else ret ())"

definition sleep :: "nat \<Rightarrow> unit prog" where
  "sleep secs = (\<lambda>s. (Inr (), s\<lparr>issued := issued s @ [Sleep secs]\<rparr>))"

text \<open>\<open>randint(a, b)\<close> raises \<open>ValueError\<close> on an empty range.\<close>

definition randint :: "env \<Rightarrow> int \<Rightarrow> int \<Rightarrow> int prog" where
  "randint e a b =
     (\<lambda>s. if b < a then (Inl ValueError, s)
          else (Inr (a + int (entropy e (issued s)) mod (b - a + 1)), s))"

text \<open>\<open>xs[i]\<close> for a Python list.\<close>

definition py_index :: "'a list \<Rightarrow> int \<Rightarrow> 'a prog" where
  "py_index xs i =
     (let n = int (length xs); j = (if i < 0 then n + i else i)
      in if 0 \<le> j \<and> j < n then ret (xs ! nat j) else raise IndexError)"

definition write_res_file :: "string \<Rightarrow> string \<Rightarrow> unit prog" where
  "write_res_file filename text = (\<lambda>s. (Inr (), s\<lparr>files := files s @ [(filename, text)]\<rparr>))"

section \<open>Status parser\<close>

definition lib_or_drv_status :: "env \<Rightarrow> command \<Rightarrow> shell_result prog" where
  "lib_or_drv_status e c =
     and_then (get_shell_result e c) (\<lambda>result.
     and_then (chk_cmd_result result) (\<lambda>_.
     ret result))"

text \<open>\<open>'Data Transfer Element'\<close>, counted for \<open>num_drives\<close>.\<close>

definition drive_element_pat :: "item list" where
  "drive_element_pat = [Lit ''Data Transfer Element'']"

definition count_drives :: "string \<Rightarrow> nat" where
  "count_drives status = length (findall drive_element_pat status)"

text \<open>\<open>'Data Transfer Element ' + str(index) + ':Full.*'\<close>\<close>

definition drive_full_pat :: "nat \<Rightarrow> item list" where
  "drive_full_pat index =
     [Lit (''Data Transfer Element '' @ str_nat index @ '':Full''), Star not_nl]"

text \<open>\<open>'^Data Transfer Element.*Element (\d+) Loaded.*= (\w+)'\<close>, replaced by \<open>'\1 \2'\<close>.\<close>

definition slot_and_vol_pat :: "item list" where
  "slot_and_vol_pat =
     [Lit ''Data Transfer Element'', Star not_nl, Lit ''Element '',
      GOpen, One is_digit, Star is_digit, GClose,
      Lit '' Loaded'', Star not_nl, Lit ''= '',
      GOpen, One is_word, Star is_word, GClose]"

definition groups_1_2 :: "string list \<Rightarrow> string" where
  "groups_1_2 caps = (case caps of [a, b] \<Rightarrow> a @ '' '' @ b | _ \<Rightarrow> [])"

definition group_1 :: "string list \<Rightarrow> string" where
  "group_1 caps = (case caps of [a] \<Rightarrow> a | _ \<Rightarrow> [])"

text \<open>
  What \<open>loaded\<close> computes from the status text: the first two words of the record of the
  full drive after the substitution, or \<open>('0', '0')\<close> when there is no such record.
\<close>

definition loaded_of :: "string \<Rightarrow> nat \<Rightarrow> error + string \<times> string" where
  "loaded_of status index =
     (case re_search (drive_full_pat index) status of
        Some (drive_loaded_line, _) \<Rightarrow>
          (case split_ws (re_sub_bol slot_and_vol_pat groups_1_2 drive_loaded_line) of
             slot_loaded # vol_loaded # _ \<Rightarrow> Inr (slot_loaded, vol_loaded)
           | _ \<Rightarrow> Inl IndexError)
      | None \<Rightarrow> Inr (''0'', ''0''))"

definition loaded :: "env \<Rightarrow> string \<Rightarrow> nat \<Rightarrow> (string \<times> string) prog" where
  "loaded e lib index =
     and_then (lib_or_drv_status e (MtxStatus lib)) (\<lambda>result.
     case loaded_of (stdout result) index of Inl err \<Rightarrow> raise err | Inr sv \<Rightarrow> ret sv)"

text \<open>
  \<open>'Storage Element [0-9].?:Full.* '\<close>, then \<open>'Storage Element ([0-9].?):Full.*'\<close> and
  \<open>'.*:VolumeTag=(.*).*'\<close>, each replaced by \<open>'\1'\<close>.
\<close>

definition full_slot_pat :: "item list" where
  "full_slot_pat =
     [Lit ''Storage Element '', One is_digit, Opt not_nl, Lit '':Full'', Star not_nl, Lit '' '']"

definition slot_pat :: "item list" where
  "slot_pat =
     [Lit ''Storage Element '', GOpen, One is_digit, Opt not_nl, GClose, Lit '':Full'',
      Star not_nl]"

definition voltag_pat :: "item list" where
  "voltag_pat =
     [Star not_nl, Lit '':VolumeTag='', GOpen, Star not_nl, GClose, Star not_nl]"

definition get_random_slot :: "env \<Rightarrow> string \<Rightarrow> (string \<times> string) prog" where
  "get_random_slot e lib =
     and_then (lib_or_drv_status e (MtxFullSlots lib)) (\<lambda>result.
     let full_slots_lst = findall full_slot_pat (stdout result) in
     and_then (randint e 0 (int (length full_slots_lst) - 1)) (\<lambda>rand_int.
     and_then (py_index full_slots_lst rand_int) (\<lambda>full_slot.
     ret (re_sub slot_pat group_1 full_slot,
          rstrip_chars is_space (re_sub voltag_pat group_1 full_slot)))))"

definition unload :: "env \<Rightarrow> string \<Rightarrow> string \<Rightarrow> nat \<Rightarrow> unit prog" where
  "unload e lib slot drive =
     and_then (get_shell_result e (MtxUnload lib slot drive)) (\<lambda>result.
     chk_cmd_result result)"

text \<open>
  The ready marker is used as a regular expression with \<open>re.DOTALL\<close>. The five markers
  \<open>get_ready_str\<close> can return have no special character other than the full stop, which
  matches any character.
\<close>

definition ready_pat :: "string \<Rightarrow> item list" where
  "ready_pat ready = map (\<lambda>c. if c = CHR ''.'' then One any_char else Lit [c]) ready"

definition is_ready :: "string \<Rightarrow> shell_result \<Rightarrow> bool" where
  "is_ready ready result = (re_search (ready_pat ready) (stdout result) \<noteq> None)"

section \<open>Device inventory\<close>

definition rstrip_nl :: "string \<Rightarrow> string" where
  "rstrip_nl s = rstrip_chars (\<lambda>c. c = newline) s"

definition get_uname :: "env \<Rightarrow> string prog" where
  "get_uname e =
     and_then (get_shell_result e Uname) (\<lambda>result.
     and_then (chk_cmd_result result) (\<lambda>_.
     ret (rstrip_nl (stdout result))))"

text \<open>
  For an unknown \<open>uname\<close> the script calls \<open>print_opt_errors\<close>, which it does not define:
  the call raises \<open>NameError\<close> before \<open>usage()\<close> is reached.
\<close>

definition get_ready_str :: "env \<Rightarrow> string \<Rightarrow> string prog" where
  "get_ready_str e uname =
     (if uname = ''Linux'' then
        (if debian_version e then
           and_then (get_shell_result e MtVersionMtSt) (\<lambda>result.
           if returncode result = 1 then ret ''drive status'' else ret ''ONLINE'')
         else
           and_then (get_shell_result e MtVersionCpio) (\<lambda>result.
           if returncode result = 0 then ret ''drive status'' else ret ''ONLINE''))
      else if uname = ''SunOS'' then ret ''No Additional Sense''
      else if uname = ''FreeBSD'' then ret ''Current Driver State: at rest.''
      else if uname = ''OpenBSD'' then ret ''ds=3<Mounted>''
      else raise NameError)"

text \<open>
  \<open>'.* (scsi-.+?) ->.*/' + lib_sg + '.*'\<close> and
  \<open>'.* (scsi-.+?) ->.*/n' + drive_st + '\n.*'\<close>, both with \<open>re.DOTALL\<close> and replaced by
  \<open>'\1'\<close> in the listing of \<open>/dev/tape/by-id\<close>.
\<close>

definition lib_byid_pat :: "string \<Rightarrow> item list" where
  "lib_byid_pat lib_sg =
     [Star any_char, Lit '' '', GOpen, Lit ''scsi-'', One any_char, LazyStar any_char, GClose,
      Lit '' ->'', Star any_char, Lit (''/'' @ lib_sg), Star any_char]"

definition drive_byid_pat :: "string \<Rightarrow> item list" where
  "drive_byid_pat drive_st =
     [Star any_char, Lit '' '', GOpen, Lit ''scsi-'', One any_char, LazyStar any_char, GClose,
      Lit '' ->'', Star any_char, Lit (''/n'' @ drive_st @ [newline]), Star any_char]"

text \<open>
  The node name is put into the pattern as it is. The model reads it as a literal, which
  is what Python does for a name of letters, digits and underscores; the names come from
  \<open>grep -o "sg[0-9]*"\<close> and \<open>grep -o "st[0-9]*"\<close>. For any other name the model stops with
  \<open>OutsideModel\<close>.
\<close>

definition resolve_byid :: "(string \<Rightarrow> item list) \<Rightarrow> string \<Rightarrow> string \<Rightarrow> string prog" where
  "resolve_byid pat dev_tape_by_id_txt node =
     (if list_all is_word node then ret (re_sub (pat node) group_1 dev_tape_by_id_txt)
      else raise OutsideModel)"

fun resolve_all :: "(string \<Rightarrow> item list) \<Rightarrow> string \<Rightarrow> string list \<Rightarrow> string list prog" where
  "resolve_all pat dev_tape_by_id_txt [] = ret []"
| "resolve_all pat dev_tape_by_id_txt (node # nodes) =
     and_then (resolve_byid pat dev_tape_by_id_txt node) (\<lambda>byid.
     and_then (resolve_all pat dev_tape_by_id_txt nodes) (\<lambda>byids.
     ret (byid # byids)))"

text \<open>
  The startup of the script up to \<open>Startup Complete\<close>: the ready marker, the libraries and the
  drives. \<open>split('\n')\<close> never returns an empty list, so the tests \<open>num_libs != 0\<close> and
  \<open>num_drives != 0\<close> always succeed and both lists are always bound.
\<close>

definition inventory :: "env \<Rightarrow> (string \<times> string list \<times> string list) prog" where
  "inventory e =
     and_then (get_uname e) (\<lambda>uname.
     and_then (get_ready_str e uname) (\<lambda>ready.
     and_then (get_shell_result e LsscsiLibs) (\<lambda>result.
     and_then (chk_cmd_result result) (\<lambda>_.
     let libs_sg_lst = split_on newline (rstrip_nl (stdout result)) in
     and_then (get_shell_result e Lsscsi) (\<lambda>result.
     and_then (chk_cmd_result result) (\<lambda>_.
     and_then (get_shell_result e LsById) (\<lambda>result.
     and_then (chk_cmd_result result) (\<lambda>_.
     let dev_tape_by_id_txt = rstrip_nl (stdout result) in
     and_then (resolve_all lib_byid_pat dev_tape_by_id_txt libs_sg_lst) (\<lambda>libs_byid_nodes_lst.
     and_then (get_shell_result e LsscsiDrives) (\<lambda>result.
     and_then (chk_cmd_result result) (\<lambda>_.
     let drives_st_lst = split_on newline (rstrip_nl (stdout result)) in
     and_then (resolve_all drive_byid_pat dev_tape_by_id_txt drives_st_lst) (\<lambda>drives.
     ret (ready, libs_byid_nodes_lst, drives)))))))))))))"

section \<open>Drive-index correlator\<close>

text \<open>The \<open>offline\<close> command to every drive, when the \<open>offline\<close> variable is set.\<close>

fun offline_drives :: "env \<Rightarrow> string list \<Rightarrow> unit prog" where
  "offline_drives e [] = ret ()"
| "offline_drives e (drive_byid # drives) =
     and_then (get_shell_result e (MtOffline drive_byid)) (\<lambda>result.
     and_then (chk_cmd_result result) (\<lambda>_.
     offline_drives e drives))"

text \<open>The loop that unloads every drive of one library, and the loop over the libraries.\<close>

function unload_drives :: "env \<Rightarrow> string \<Rightarrow> nat \<Rightarrow> nat \<Rightarrow> unit prog" where
  "unload_drives e lib drive_index num_drives s =
     (if drive_index < num_drives then
        and_then (loaded e lib drive_index) (\<lambda>(slot_loaded, vol_loaded).
        and_then (if slot_loaded \<noteq> ''0'' then unload e lib slot_loaded drive_index else ret ()) (\<lambda>_.
        unload_drives e lib (Suc drive_index) num_drives)) s
      else ret () s)"
  by pat_completeness auto
termination
  by (relation "measure (\<lambda>(e, lib, drive_index, num_drives, s). num_drives - drive_index)") auto

fun unload_all_libs :: "env \<Rightarrow> string list \<Rightarrow> unit prog" where
  "unload_all_libs e [] = ret ()"
| "unload_all_libs e (lib # libs) =
     and_then (lib_or_drv_status e (MtxStatus lib)) (\<lambda>result.
     and_then (unload_drives e lib 0 (count_drives (stdout result))) (\<lambda>_.
     unload_all_libs e libs))"

text \<open>
  \<open>lib_dict[lib].append(entry)\<close> if the key is there, \<open>lib_dict[lib] = [entry]\<close> otherwise,
  followed by \<open>drives_byid_nodes_lst.remove(drive_byid_node)\<close>, which removes the first
  occurrence.
\<close>

fun dict_append :: "string \<Rightarrow> string \<times> nat \<Rightarrow> (string \<times> (string \<times> nat) list) list
    \<Rightarrow> (string \<times> (string \<times> nat) list) list" where
  "dict_append lib entry [] = [(lib, [entry])]"
| "dict_append lib entry ((k, entries) # d) =
     (if k = lib then (k, entries @ [entry]) # d else (k, entries) # dict_append lib entry d)"

definition record_drive :: "string \<Rightarrow> string \<Rightarrow> nat \<Rightarrow> unit prog" where
  "record_drive lib drive_byid_node drive_index =
     (\<lambda>s. (Inr (), s\<lparr>lib_dict := dict_append lib (drive_byid_node, drive_index) (lib_dict s),
                      drives_byid_nodes_lst := remove1 drive_byid_node (drives_byid_nodes_lst s)\<rparr>))"

text \<open>
  The loop over \<open>drives_byid_nodes_lst\<close> for one drive index. The list is changed only
  right before the \<open>break\<close>, so the loop runs over the list as it is when the loop starts.
\<close>

fun scan_drives :: "env \<Rightarrow> string \<Rightarrow> string \<Rightarrow> string \<Rightarrow> nat \<Rightarrow> string list \<Rightarrow> unit prog" where
  "scan_drives e ready lib slot drive_index [] = ret ()"
| "scan_drives e ready lib slot drive_index (drive_byid_node # nodes) =
     and_then (lib_or_drv_status e (MtStatus drive_byid_node)) (\<lambda>result.
     if is_ready ready result then
       and_then (record_drive lib drive_byid_node drive_index) (\<lambda>_.
       unload e lib slot drive_index)
     else scan_drives e ready lib slot drive_index nodes)"

text \<open>One round of the \<open>while\<close> loop of a library: load a tape, wait, look for the drive.\<close>

definition identify_drive_index :: "env \<Rightarrow> config \<Rightarrow> string \<Rightarrow> string \<Rightarrow> nat \<Rightarrow> unit prog" where
  "identify_drive_index e cfg ready lib drive_index =
     and_then (get_random_slot e lib) (\<lambda>(slot, vol).
     and_then (get_shell_result e (MtxLoad lib slot drive_index)) (\<lambda>result.
     and_then (chk_cmd_result result) (\<lambda>_.
     and_then (sleep (sleep_secs cfg)) (\<lambda>_.
     (\<lambda>s. scan_drives e ready lib slot drive_index (drives_byid_nodes_lst s) s)))))"

function identify_drives :: "env \<Rightarrow> config \<Rightarrow> string \<Rightarrow> string \<Rightarrow> nat \<Rightarrow> nat \<Rightarrow> unit prog" where
  "identify_drives e cfg ready lib drive_index num_drives s =
     (if drive_index < num_drives then
        and_then (identify_drive_index e cfg ready lib drive_index) (\<lambda>_.
        identify_drives e cfg ready lib (Suc drive_index) num_drives) s
      else ret () s)"
  by pat_completeness auto
termination
  by (relation "measure (\<lambda>(e, cfg, ready, lib, drive_index, num_drives, s).
                  num_drives - drive_index)") auto

fun discover_libs :: "env \<Rightarrow> config \<Rightarrow> string \<Rightarrow> string list \<Rightarrow> unit prog" where
  "discover_libs e cfg ready [] = ret ()"
| "discover_libs e cfg ready (lib # libs) =
     and_then (lib_or_drv_status e (MtxStatus lib)) (\<lambda>result.
     and_then (if lib \<in> set (libs_to_skip cfg) then ret ()
               else identify_drives e cfg ready lib 0 (count_drives (stdout result))) (\<lambda>_.
     discover_libs e cfg ready libs))"

section \<open>Resource renderer\<close>

definition progname :: string where
  "progname = ''Bacula Resource Auto Creator''"

definition version :: string where
  "version = ''0.09''"

text \<open>\<open>progname.replace(' ', '-').lower() + '_' + date_stamp\<close>\<close>

definition lower_name_and_time :: "env \<Rightarrow> string" where
  "lower_name_and_time e = ''bacula-resource-auto-creator_'' @ date_stamp e"

definition work_dir :: "env \<Rightarrow> string" where
  "work_dir e = ''/tmp/'' @ lower_name_and_time e"

definition created_by_str :: "env \<Rightarrow> string" where
  "created_by_str e = ''Created by '' @ progname @ '' v'' @ version @ '' - '' @ date_stamp e"

definition director_storage_tpl :: string where
  "director_storage_tpl = join [newline]
     [''Storage {'',
      ''  Name ='',
      ''  Description ='',
      ''  Address ='',
      ''  Password ='',
      ''  Autochanger ='',
      ''  Device ='',
      ''  MaximumConcurrentJobs ='',
      ''  MediaType ='',
      ''  SdPort = 9103'',
      ''}'']"

definition storage_autochanger_tpl :: string where
  \<open>storage_autochanger_tpl = join [newline]
     [''Autochanger {'',
      ''  Name ='',
      ''  Description ='',
      ''  ChangerCommand = "/opt/bacula/scripts/mtx-changer %c %o %S %a %d"'',
      ''  ChangerDevice ='',
      ''  Device ='',
      ''}'']\<close>

definition storage_device_tpl :: string where
  "storage_device_tpl = join [newline]
     [''Device {'',
      ''  Name ='',
      ''  Description ='',
      ''  DriveIndex ='',
      ''  DeviceType = Tape'',
      ''  MediaType ='',
      ''  Autochanger = yes'',
      ''  AlwaysOpen = yes'',
      ''  AutomaticMount = yes'',
      ''  LabelMedia = no'',
      ''  RandomAccess = no'',
      ''  RemovableMedia = yes'',
      ''  MaximumConcurrentJobs = 1'',
      ''  ArchiveDevice ='',
      ''}'']"

definition autochanger_name_of :: "string \<Rightarrow> string" where
  "autochanger_name_of lib = ''Autochanger_'' @ replace ''scsi-'' [] lib"

text \<open>The Director Storage resource of a library with \<open>n\<close> entries in \<open>lib_dict\<close>.\<close>

definition director_storage_txt :: "string \<Rightarrow> string \<Rightarrow> nat \<Rightarrow> string" where
  \<open>director_storage_txt created_by lib n =
     (let autochanger_name = autochanger_name_of lib;
          res_txt = director_storage_tpl;
          res_txt = replace ''Name ='' (''Name = "'' @ autochanger_name @ ''"'') res_txt;
          res_txt = replace ''Description =''
                      (''Description = "Autochanger with ('' @ str_nat n @ '') drives - ''
                       @ created_by @ ''"'') res_txt;
          res_txt = replace ''Address =''
                      ''Address = "127.0.0.1"       # You *must* replace this with the correct FQDN!''
                      res_txt;
          res_txt = replace ''Password =''
                      ''Password = "wrongPassword"  # You *must* replace this with the correct password for the SD @ Address''
                      res_txt;
          res_txt = replace ''Autochanger ='' (''Autochanger = "'' @ autochanger_name @ ''"'') res_txt;
          res_txt = replace ''Device ='' (''Device = "'' @ autochanger_name @ ''"'') res_txt;
          res_txt = replace ''MaximumConcurrentJobs ='' (''MaximumConcurrentJobs = '' @ str_nat n) res_txt;
          res_txt = replace ''MediaType ='' (''MediaType = "'' @ replace ''scsi-'' [] lib @ ''"'') res_txt
      in res_txt)\<close>

text \<open>The Autochanger resource, with the device names collected by the device loop.\<close>

definition storage_autochanger_txt :: "string \<Rightarrow> string \<Rightarrow> string \<Rightarrow> string" where
  \<open>storage_autochanger_txt created_by lib autochanger_dev_str =
     (let autochanger_name = autochanger_name_of lib;
          res_txt = storage_autochanger_tpl;
          res_txt = replace ''Name ='' (''Name = "'' @ autochanger_name @ ''"'') res_txt;
          res_txt = replace ''Description ='' (''Description = "'' @ created_by @ ''"'') res_txt;
          res_txt = replace ''ChangerDevice ='' (''ChangerDevice = "/dev/tape/by-id/'' @ lib @ ''"'') res_txt;
          res_txt = replace '' Device ='' ('' Device = '' @ autochanger_dev_str) res_txt
      in res_txt)\<close>

text \<open>The Device resource number \<open>dev\<close> of a library.\<close>

definition storage_device_txt :: "string \<Rightarrow> string \<Rightarrow> nat \<Rightarrow> string \<Rightarrow> string" where
  \<open>storage_device_txt created_by lib dev archive_dev =
     (let autochanger_name = autochanger_name_of lib;
          drv_res_txt = storage_device_tpl;
          drv_res_txt = replace ''Name ='' (''Name = "'' @ autochanger_name @ ''_Dev'' @ str_nat dev @ ''"'')
                          drv_res_txt;
          drv_res_txt = replace ''Description =''
                          (''Description = "Drive '' @ str_nat dev @ '' in '' @ autochanger_name
                           @ '' - '' @ created_by @ ''"'') drv_res_txt;
          drv_res_txt = replace ''DriveIndex ='' (''DriveIndex = '' @ str_nat dev) drv_res_txt;
          drv_res_txt = replace ''MediaType ='' (''MediaType = "'' @ replace ''scsi-'' [] lib @ ''"'')
                          drv_res_txt;
          drv_res_txt = replace ''ArchiveDevice =''
                          (''ArchiveDevice = "/dev/tape/by-id/'' @ archive_dev @ ''"'') drv_res_txt
      in drv_res_txt)\<close>

text \<open>
  The loop over the entries of the library that assigns \<open>archive_device\<close> where the drive
  index of the entry is \<open>dev\<close> (the \<open>continue\<close> is the last statement of the loop body).
\<close>

fun lookup_archive_device :: "(string \<times> nat) list \<Rightarrow> nat \<Rightarrow> string option \<Rightarrow> string option" where
  "lookup_archive_device [] dev ad = ad"
| "lookup_archive_device (drive_index_tuple # entries) dev ad =
     lookup_archive_device entries dev
       (if snd drive_index_tuple = dev then Some (fst drive_index_tuple) else ad)"

definition assign_archive_device :: "(string \<times> nat) list \<Rightarrow> nat \<Rightarrow> unit prog" where
  "assign_archive_device entries dev =
     (\<lambda>s. (Inr (), s\<lparr>archive_device := lookup_archive_device entries dev (archive_device s)\<rparr>))"

text \<open>Reading \<open>archive_device\<close> raises \<open>NameError\<close> while the variable is unbound.\<close>

definition read_archive_device :: "string prog" where
  "read_archive_device =
     (\<lambda>s. case archive_device s of None \<Rightarrow> (Inl NameError, s) | Some ad \<Rightarrow> (Inr ad, s))"

text \<open>
  The \<open>while\<close> loop over \<open>dev\<close>; it returns \<open>autochanger_dev_str\<close>. The comparison
  \<open>dev <= len(lib_dict[lib]) - 2\<close> is one of Python integers.
\<close>

function generate_devices :: "env \<Rightarrow> string \<Rightarrow> (string \<times> nat) list \<Rightarrow> nat \<Rightarrow> string \<Rightarrow> string prog" where
  \<open>generate_devices e lib entries dev autochanger_dev_str s =
     (if dev < length entries then
        (let autochanger_name = autochanger_name_of lib;
             dev_str = autochanger_dev_str @ ''"'' @ autochanger_name @ ''_Dev''
                @ str_nat dev @ ''"'' @ (if int dev \<le> int (length entries) - 2 then '', '' else []);
             drv_res_file = work_dir e @ ''/StorageDevice_'' @ autochanger_name @ ''_Dev''
                @ str_nat dev @ ''.cfg''
         in and_then (assign_archive_device entries dev) (\<lambda>_.
            and_then read_archive_device (\<lambda>archive_dev.
            and_then (write_res_file drv_res_file
                        (storage_device_txt (created_by_str e) lib dev archive_dev)) (\<lambda>_.
            generate_devices e lib entries (Suc dev) dev_str))) s)
      else ret autochanger_dev_str s)\<close>
  by pat_completeness auto
termination
  by (relation "measure (\<lambda>(e, lib, entries, dev, str, s). length entries - dev)") auto

definition generate_library :: "env \<Rightarrow> string \<times> (string \<times> nat) list \<Rightarrow> unit prog" where
  \<open>generate_library e kv =
     (let lib = fst kv; entries = snd kv; autochanger_name = autochanger_name_of lib in
      and_then (write_res_file (work_dir e @ ''/DirectorStorage_'' @ autochanger_name @ ''.cfg'')
                  (director_storage_txt (created_by_str e) lib (length entries))) (\<lambda>_.
      and_then (generate_devices e lib entries 0 []) (\<lambda>autochanger_dev_str.
      write_res_file (work_dir e @ ''/StorageAutochanger_'' @ autochanger_name @ ''.cfg'')
        (storage_autochanger_txt (created_by_str e) lib autochanger_dev_str))))\<close>

fun generate_all :: "env \<Rightarrow> (string \<times> (string \<times> nat) list) list \<Rightarrow> unit prog" where
  "generate_all e [] = ret ()"
| "generate_all e (kv # d) = and_then (generate_library e kv) (\<lambda>_. generate_all e d)"

definition generate :: "env \<Rightarrow> unit prog" where
  "generate e = (\<lambda>s. generate_all e (lib_dict s) s)"

section \<open>The script\<close>

text \<open>
  The script after the startup: the optional \<open>offline\<close> commands, the unloading of all
  drives, the discovery, and the generation of the resource files. The report between
  discovery and generation only writes to the log. \<open>correlate\<close> is the part before the
  generation.
\<close>

definition correlate :: "env \<Rightarrow> config \<Rightarrow> string \<Rightarrow> string list \<Rightarrow> unit prog" where
  "correlate e cfg ready libs_byid_nodes_lst =
     and_then (if offline cfg then (\<lambda>s. offline_drives e (drives_byid_nodes_lst s) s) else ret ()) (\<lambda>_.
     and_then (unload_all_libs e libs_byid_nodes_lst) (\<lambda>_.
     discover_libs e cfg ready libs_byid_nodes_lst))"

definition script :: "env \<Rightarrow> config \<Rightarrow> string \<Rightarrow> string list \<Rightarrow> unit prog" where
  "script e cfg ready libs_byid_nodes_lst =
     and_then (correlate e cfg ready libs_byid_nodes_lst) (\<lambda>_. generate e)"

definition initial_state :: state where
  "initial_state = \<lparr>issued = [], drives_byid_nodes_lst = [], lib_dict = [],
                     archive_device = None, files = []\<rparr>"

definition set_drives :: "string list \<Rightarrow> unit prog" where
  "set_drives drives = (\<lambda>s. (Inr (), s\<lparr>drives_byid_nodes_lst := drives\<rparr>))"

definition main :: "env \<Rightarrow> config \<Rightarrow> (error + unit) \<times> state" where
  "main e cfg =
     and_then (inventory e) (\<lambda>(ready, libs_byid_nodes_lst, drives).
     and_then (set_drives drives) (\<lambda>_.
     script e cfg ready libs_byid_nodes_lst)) initial_state"

section \<open>Basic facts\<close>

lemma and_then_ret [simp]: "and_then (ret x) f = f x"
  by (simp add: and_then_def ret_def)

lemma lib_or_drv_status_eq:
  "lib_or_drv_status e c s =
     (let result = shell e (issued s) (cmd_str c); s' = s\<lparr>issued := issued s @ [Cmd c]\<rparr>
      in if returncode result \<noteq> 0 then (Inl (Exit (returncode result)), s') else (Inr result, s'))"
  by (simp add: lib_or_drv_status_def get_shell_result_def chk_cmd_result_def and_then_def
      ret_def raise_def Let_def)

lemma split_on_not_Nil: "split_on d s \<noteq> []"
  by (induction s) (auto split: list.splits)

lemma split_on_append: "split_on d (a @ d # b) = split_on d a @ split_on d b"
  by (induction a) (auto simp: split_on_not_Nil split: list.splits)

lemma split_on_no_delim: "d \<notin> set a \<Longrightarrow> split_on d a = [a]"
  by (induction a) auto

section \<open>An empty library: \<open>get_random_slot\<close> returns no slot\<close>

text \<open>
  A line of the status text that reports a full storage element names a storage element
  and says \<open>:Full\<close>.
\<close>

definition full_slot_line :: "string \<Rightarrow> bool" where
  "full_slot_line l = (sublist ''Storage Element '' l \<and> sublist '':Full'' l)"

text \<open>A world in which every command succeeds and prints nothing.\<close>

definition quiet_env :: env where
  "quiet_env = \<lparr>shell = (\<lambda>h c. \<lparr>returncode = 0, stdout = [], stderr = []\<rparr>),
                 entropy = (\<lambda>h. 0), debian_version = False, date_stamp = ''20240213120000''\<rparr>"

lemma line_of_sublist:
  assumes "sublist w t" and "newline \<notin> set w"
  shows "\<exists>l \<in> set (split_on newline t). sublist w l"
proof -
  from assms(1) obtain ps ss where t: "t = ps @ w @ ss"
    by (auto simp: sublist_def)
  define p2 where "p2 = rev (takeWhile (\<lambda>c. c \<noteq> newline) (rev ps))"
  define p1 where "p1 = rev (dropWhile (\<lambda>c. c \<noteq> newline) (rev ps))"
  define s1 where "s1 = takeWhile (\<lambda>c. c \<noteq> newline) ss"
  define s2 where "s2 = dropWhile (\<lambda>c. c \<noteq> newline) ss"
  define m where "m = p2 @ w @ s1"
  have ps: "ps = p1 @ p2"
    unfolding p1_def p2_def by (metis rev_append rev_rev_ident takeWhile_dropWhile_id)
  have ss: "ss = s1 @ s2"
    unfolding s1_def s2_def by simp
  have nl_m: "newline \<notin> set m"
    unfolding m_def p2_def s1_def using assms(2) by (auto dest: set_takeWhileD)
  have tm: "t = p1 @ m @ s2"
    by (simp add: t ps ss m_def)
  have right: "m \<in> set (split_on newline (m @ s2))"
  proof (cases s2)
    case Nil
    then show ?thesis using nl_m by (simp add: split_on_no_delim)
  next
    case (Cons c cs)
    then have "c = newline"
      unfolding s2_def by (metis (mono_tags, lifting) hd_dropWhile list.sel(1) list.simps(3))
    then show ?thesis
      using Cons nl_m by (simp add: split_on_append split_on_no_delim)
  qed
  have "m \<in> set (split_on newline t)"
  proof (cases "rev p1")
    case Nil
    then show ?thesis using right tm by simp
  next
    case (Cons c cs)
    then have "c = newline"
      unfolding p1_def by (metis (mono_tags, lifting) hd_dropWhile list.sel(1) list.simps(3) rev_rev_ident)
    then have "p1 = rev cs @ [newline]"
      using Cons by (metis rev.simps(2) rev_rev_ident)
    then have "t = rev cs @ newline # (m @ s2)"
      using tm by simp
    then show ?thesis
      using right by (simp add: split_on_append)
  qed
  moreover have "sublist w m"
    unfolding m_def by simp
  ultimately show ?thesis by blast
qed

lemma findall_Nil:
  "(\<And>i. rmatch p (drop i t) None [] = None) \<Longrightarrow> findall p t = []"
proof (induction t)
  case Nil
  then show ?case using Nil [of 0] by simp
next
  case (Cons x xs)
  have "rmatch p (x # xs) None [] = None" using Cons.prems [of 0] by simp
  moreover have "findall p xs = []"
    using Cons.IH Cons.prems [of "Suc i" for i] by simp
  ultimately show ?case by simp
qed

lemma full_slot_match:
  assumes "rmatch full_slot_pat s None [] = Some y"
  shows "\<exists>d x rest. s = ''Storage Element '' @ d # x @ '':Full'' @ rest \<and> newline \<notin> set x
           \<and> is_digit d"
proof -
  from assms obtain s1 where s: "s = ''Storage Element '' @ s1"
    and m1: "rmatch [One is_digit, Opt not_nl, Lit '':Full'', Star not_nl, Lit '' ''] s1 None [] = Some y"
    by (auto simp: full_slot_pat_def prefix_def split: if_splits)
  from m1 obtain d s2 where s1: "s1 = d # s2" and d: "is_digit d"
    and m2: "rmatch [Opt not_nl, Lit '':Full'', Star not_nl, Lit '' ''] s2 None [] = Some y"
    by (cases s1) (auto split: if_splits)
  have "\<exists>x rest. s2 = x @ '':Full'' @ rest \<and> newline \<notin> set x"
  proof (cases s2)
    case Nil
    then show ?thesis using m2 by simp
  next
    case (Cons c s3)
    show ?thesis
    proof (cases "prefix '':Full'' s2")
      case True
      then obtain rest where "s2 = [] @ '':Full'' @ rest" by (auto simp: prefix_def)
      then show ?thesis by (metis empty_iff list.set(1))
    next
      case False
      then have "not_nl c \<and> prefix '':Full'' s3"
        using m2 Cons by (auto split: if_splits option.splits)
      then obtain rest where "s2 = [c] @ '':Full'' @ rest" "c \<noteq> newline"
        using Cons by (auto simp: prefix_def not_nl_def)
      then show ?thesis by (metis empty_iff empty_set set_ConsD)
    qed
  qed
  then show ?thesis using s s1 d by auto
qed

lemma no_full_slot_line_findall:
  assumes "list_all (\<lambda>l. \<not> full_slot_line l) (split_on newline t)"
  shows "findall full_slot_pat t = []"
proof (rule findall_Nil)
  fix i
  show "rmatch full_slot_pat (drop i t) None [] = None"
  proof (rule ccontr)
    assume "rmatch full_slot_pat (drop i t) None [] \<noteq> None"
    then obtain y where "rmatch full_slot_pat (drop i t) None [] = Some y" by auto
    then obtain d x rest where dr: "drop i t = ''Storage Element '' @ d # x @ '':Full'' @ rest"
      and x: "newline \<notin> set x" and d: "is_digit d"
      using full_slot_match by blast
    define w where "w = ''Storage Element '' @ d # x @ '':Full''"
    have "t = take i t @ w @ rest"
      using dr by (metis append.assoc append_Cons append_take_drop_id w_def)
    then have "sublist w t" by (metis sublist_appendI)
    moreover have "newline \<notin> set w"
      using x d by (auto simp: w_def newline_def is_digit_def)
    ultimately obtain l where l: "l \<in> set (split_on newline t)" and wl: "sublist w l"
      using line_of_sublist by blast
    have "sublist ''Storage Element '' ([] @ ''Storage Element '' @ (d # x @ '':Full''))"
      by (rule sublist_appendI)
    then have w1: "sublist ''Storage Element '' w"
      by (simp add: w_def)
    have "sublist '':Full'' ((''Storage Element '' @ d # x) @ '':Full'' @ [])"
      by (rule sublist_appendI)
    then have w2: "sublist '':Full'' w"
      by (simp add: w_def)
    have "full_slot_line l"
      unfolding full_slot_line_def
      using w1 w2 wl sublist_order.order_trans by blast
    then show False
      using assms l by (auto simp: list_all_iff)
  qed
qed

text \<open>
  When no line of the text that \<open>get_random_slot\<close> reads reports a full storage element,
  the list of matches is empty. If the command has reported success, the function then
  raises \<open>ValueError\<close> from \<open>randint(0, -1)\<close>; if not, it has already left through \<open>sys.exit\<close>.
\<close>

lemma get_random_slot_no_match:
  assumes "list_all (\<lambda>l. \<not> full_slot_line l)
             (split_on newline (stdout (shell e (issued s) (cmd_str (MtxFullSlots lib)))))"
  shows "fst (get_random_slot e lib s) =
           Inl (let rc = returncode (shell e (issued s) (cmd_str (MtxFullSlots lib)))
                in if rc = 0 then ValueError else Exit rc)"
  using no_full_slot_line_findall [OF assms]
  by (simp add: get_random_slot_def and_then_def lib_or_drv_status_eq Let_def randint_def)

text \<open>
  The command of \<open>get_random_slot\<close> is a pipeline: the status text of the changer goes through
  a \<open>grep\<close> for \<open>Storage Element\<close>, one to three digits and \<open>:Full\<close>, and \<open>grep -v "CLN"\<close>. \<open>subprocess.run\<close> with
  \<open>shell=True\<close> reports the exit status of the last command of a pipeline, and \<open>grep\<close> exits
  with status 1 when it selects no line. \<open>full_slots_pipeline\<close> is the result of the pipeline
  for a status text of the changer: the lines that report a full storage element and do not
  contain \<open>CLN\<close>, and the exit status of the second \<open>grep\<close>.
\<close>

definition grep_full_slot_pat :: "item list" where
  "grep_full_slot_pat =
     [Lit ''Storage Element '', One is_digit, Opt is_digit, Opt is_digit, Lit '':Full'']"

definition selected_line :: "string \<Rightarrow> bool" where
  "selected_line l = (re_search grep_full_slot_pat l \<noteq> None \<and> \<not> sublist ''CLN'' l)"

definition full_slots_pipeline :: "string \<Rightarrow> shell_result" where
  "full_slots_pipeline status =
     (let selected = filter selected_line (split_on newline status)
      in \<lparr>returncode = (if selected = [] then 1 else 0),
          stdout = concat (map (\<lambda>l. l @ [newline]) selected),
          stderr = []\<rparr>)"

text \<open>
  C9, as amended. For a status text of the changer with no full, non-cleaning
  storage-element line the pipeline prints nothing and exits with status 1, so
  \<open>get_random_slot\<close> returns no slot: \<open>chk_cmd_result\<close> ends the run with \<open>sys.exit(1)\<close> right
  after the command, before the list of matches and \<open>randint\<close> are evaluated.
\<close>

theorem get_random_slot_empty_library:
  assumes "shell e (issued s) (cmd_str (MtxFullSlots lib)) = full_slots_pipeline status"
    and "filter selected_line (split_on newline status) = []"
  shows "get_random_slot e lib s =
           (Inl (Exit 1), s\<lparr>issued := issued s @ [Cmd (MtxFullSlots lib)]\<rparr>)"
  using assms
  by (simp add: get_random_slot_def and_then_def lib_or_drv_status_eq Let_def
      full_slots_pipeline_def)

text \<open>A library whose slots are empty but for a cleaning tape.\<close>

definition empty_library_status :: string where
  "empty_library_status =
     ''Data Transfer Element 0:Empty'' @ [newline] @
     ''      Storage Element 1:Empty'' @ [newline] @
     ''      Storage Element 2:Full :VolumeTag=CLN001L1'' @ [newline]"

definition empty_library_env :: env where
  "empty_library_env =
     \<lparr>shell = (\<lambda>h c. full_slots_pipeline empty_library_status),
      entropy = (\<lambda>h. 0), debian_version = False, date_stamp = ''20240213120000''\<rparr>"

lemma empty_library_selected: "filter selected_line (split_on newline empty_library_status) = []"
  by code_simp

theorem get_random_slot_empty_library_witness:
  "shell empty_library_env (issued initial_state) (cmd_str (MtxFullSlots ''L'')) =
     full_slots_pipeline empty_library_status
   \<and> filter selected_line (split_on newline empty_library_status) = []
   \<and> get_random_slot empty_library_env ''L'' initial_state =
       (Inl (Exit 1), initial_state\<lparr>issued := [Cmd (MtxFullSlots ''L'')]\<rparr>)"
proof -
  have 1: "shell empty_library_env (issued initial_state) (cmd_str (MtxFullSlots ''L'')) =
     full_slots_pipeline empty_library_status"
    by (simp add: empty_library_env_def)
  show ?thesis
    using get_random_slot_empty_library [OF 1 empty_library_selected] 1 empty_library_selected
    by (simp add: initial_state_def)
qed

text \<open>
  The claim C9 as stated fails: for this library the function does not reach
  \<open>randint(0, -1)\<close>; it leaves through \<open>sys.exit(1)\<close>.
\<close>

theorem get_random_slot_exits_before_randint:
  "fst (get_random_slot empty_library_env ''L'' initial_state) = Inl (Exit 1)
   \<and> fst (get_random_slot empty_library_env ''L'' initial_state) \<noteq> Inl ValueError"
  by code_simp

section \<open>Text replacement\<close>

declare replace.simps [simp del]






















section \<open>The device loop of the renderer\<close>

text \<open>
  The value of \<open>archive_device\<close> after the lookup of round \<open>dev\<close> of the device loop, when
  the loop starts with the value \<open>ad0\<close> (\<open>None\<close>: unbound); the value before that round; the
  value of \<open>autochanger_dev_str\<close> after \<open>dev\<close> rounds; the three kinds of files.
\<close>

fun archive_device_at :: "(string \<times> nat) list \<Rightarrow> string option \<Rightarrow> nat \<Rightarrow> string option" where
  "archive_device_at entries ad0 0 = lookup_archive_device entries 0 ad0"
| "archive_device_at entries ad0 (Suc dev) =
     lookup_archive_device entries (Suc dev) (archive_device_at entries ad0 dev)"

definition archive_device_before :: "(string \<times> nat) list \<Rightarrow> string option \<Rightarrow> nat \<Rightarrow> string option" where
  "archive_device_before entries ad0 dev =
     (case dev of 0 \<Rightarrow> ad0 | Suc k \<Rightarrow> archive_device_at entries ad0 k)"

fun device_names :: "string \<Rightarrow> nat \<Rightarrow> nat \<Rightarrow> string" where
  "device_names lib n 0 = []"
| \<open>device_names lib n (Suc dev) =
     device_names lib n dev @ ''"'' @ autochanger_name_of lib @ ''_Dev'' @ str_nat dev @ ''"''
       @ (if int dev \<le> int n - 2 then '', '' else [])\<close>

definition director_file :: "env \<Rightarrow> string \<Rightarrow> nat \<Rightarrow> string \<times> string" where
  "director_file e lib n =
     (work_dir e @ ''/DirectorStorage_'' @ autochanger_name_of lib @ ''.cfg'',
      director_storage_txt (created_by_str e) lib n)"

definition device_file :: "env \<Rightarrow> string \<Rightarrow> nat \<Rightarrow> string \<Rightarrow> string \<times> string" where
  "device_file e lib dev archive_dev =
     (work_dir e @ ''/StorageDevice_'' @ autochanger_name_of lib @ ''_Dev'' @ str_nat dev @ ''.cfg'',
      storage_device_txt (created_by_str e) lib dev archive_dev)"

definition autochanger_file :: "env \<Rightarrow> string \<Rightarrow> nat \<Rightarrow> string \<times> string" where
  "autochanger_file e lib n =
     (work_dir e @ ''/StorageAutochanger_'' @ autochanger_name_of lib @ ''.cfg'',
      storage_autochanger_txt (created_by_str e) lib (device_names lib n n))"

lemma lookup_archive_device_filter:
  "lookup_archive_device entries dev ad =
     (case filter (\<lambda>t. snd t = dev) entries of [] \<Rightarrow> ad | t # ts \<Rightarrow> Some (fst (last (t # ts))))"
  by (induction entries arbitrary: ad) (auto split: list.splits)

lemma lookup_archive_device_Some:
  "ad \<noteq> None \<Longrightarrow> lookup_archive_device entries dev ad \<noteq> None"
  by (induction entries arbitrary: ad) auto




lemma archive_device_at_before:
  "archive_device_at entries ad0 dev = lookup_archive_device entries dev (archive_device_before entries ad0 dev)"
  by (cases dev) (simp_all add: archive_device_before_def)

declare generate_devices.simps [simp del]

lemma generate_devices_closed:
  assumes "archive_device s = archive_device_before entries ad0 dev"
    and "dev \<le> length entries"
    and "dev < length entries \<Longrightarrow> archive_device_at entries ad0 dev \<noteq> None"
  shows "generate_devices e lib entries dev (device_names lib (length entries) dev) s =
     (Inr (device_names lib (length entries) (length entries)),
      s\<lparr>archive_device := archive_device_before entries ad0 (length entries),
        files := files s @ map (\<lambda>k. device_file e lib k (the (archive_device_at entries ad0 k)))
                             [dev..<length entries]\<rparr>)"
  using assms
proof (induction "length entries - dev" arbitrary: dev s)
  case 0
  then have "dev = length entries" by simp
  then show ?case
    using "0.prems"(1) by (subst generate_devices.simps) (simp add: ret_def)
next
  case (Suc m)
  then have lt: "dev < length entries" by simp
  then obtain a where a: "archive_device_at entries ad0 dev = Some a"
    using Suc.prems(3) by auto
  then have look: "lookup_archive_device entries dev (archive_device s) = Some a"
    using Suc.prems(1) by (simp add: archive_device_at_before)
  define s1 where "s1 = s\<lparr>archive_device := Some a, files := files s @ [device_file e lib dev a]\<rparr>"
  have step: "generate_devices e lib entries dev (device_names lib (length entries) dev) s =
              generate_devices e lib entries (Suc dev) (device_names lib (length entries) (Suc dev)) s1"
    using lt look
    by (subst generate_devices.simps)
       (simp add: Let_def and_then_def assign_archive_device_def read_archive_device_def
          write_res_file_def device_file_def s1_def del: str_nat.simps)
  have ih: "generate_devices e lib entries (Suc dev) (device_names lib (length entries) (Suc dev)) s1 =
     (Inr (device_names lib (length entries) (length entries)),
      s1\<lparr>archive_device := archive_device_before entries ad0 (length entries),
         files := files s1 @ map (\<lambda>k. device_file e lib k (the (archive_device_at entries ad0 k)))
                             [Suc dev..<length entries]\<rparr>)"
  proof (rule Suc.hyps(1))
    show "m = length entries - Suc dev" using Suc.hyps(2) by simp
    show "archive_device s1 = archive_device_before entries ad0 (Suc dev)"
      by (simp add: s1_def archive_device_before_def a)
    show "Suc dev \<le> length entries" using lt by simp
    show "archive_device_at entries ad0 (Suc dev) \<noteq> None"
      using a by (simp add: lookup_archive_device_Some)
  qed
  have "[dev..<length entries] = dev # [Suc dev..<length entries]"
    using lt by (simp add: upt_conv_Cons)
  then show ?case
    using ih a by (simp add: step s1_def)
qed

lemma generate_library_closed:
  "generate_library e (lib, entries) s =
     (if entries \<noteq> [] \<and> archive_device_at entries (archive_device s) 0 = None
      then (Inl NameError, s\<lparr>files := files s @ [director_file e lib (length entries)]\<rparr>)
      else (Inr (),
            s\<lparr>archive_device := archive_device_before entries (archive_device s) (length entries),
              files := files s @ [director_file e lib (length entries)]
                @ map (\<lambda>dev. device_file e lib dev (the (archive_device_at entries (archive_device s) dev)))
                      [0..<length entries]
                @ [autochanger_file e lib (length entries)]\<rparr>))"
proof (cases "entries \<noteq> [] \<and> archive_device_at entries (archive_device s) 0 = None")
  case True
  define s1 where "s1 = s\<lparr>files := files s @ [director_file e lib (length entries)]\<rparr>"
  have none: "lookup_archive_device entries 0 (archive_device s1) = None"
    using True by (simp add: s1_def)
  then have "archive_device s1 = None"
    using lookup_archive_device_Some [of "archive_device s1" entries 0]
    by (cases "archive_device s1") auto
  then have same: "s1\<lparr>archive_device := None\<rparr> = s1" by simp
  have "generate_devices e lib entries 0 [] s1 = (Inl NameError, s1)"
    using True none same
    by (subst generate_devices.simps)
       (simp add: Let_def and_then_def assign_archive_device_def read_archive_device_def)
  then show ?thesis
    using True
    by (simp add: generate_library_def Let_def and_then_def write_res_file_def director_file_def
        s1_def)
next
  case False
  define s1 where "s1 = s\<lparr>files := files s @ [director_file e lib (length entries)]\<rparr>"
  have "generate_devices e lib entries 0 (device_names lib (length entries) 0) s1 =
     (Inr (device_names lib (length entries) (length entries)),
      s1\<lparr>archive_device := archive_device_before entries (archive_device s) (length entries),
        files := files s1 @ map (\<lambda>k. device_file e lib k (the (archive_device_at entries (archive_device s) k)))
                             [0..<length entries]\<rparr>)"
  proof (rule generate_devices_closed)
    show "archive_device s1 = archive_device_before entries (archive_device s) 0"
      by (simp add: s1_def archive_device_before_def)
    show "0 \<le> length entries" by simp
    show "archive_device_at entries (archive_device s) 0 \<noteq> None" if "0 < length entries"
      using that False by auto
  qed
  then show ?thesis
    using False
    by (simp add: generate_library_def Let_def and_then_def write_res_file_def director_file_def
        autochanger_file_def s1_def)
qed






lemma media_type_L1: "replace ''scsi-'' [] ''scsi-L1'' = ''L1''"
  by (simp add: replace.simps)




section \<open>The renderer as a function of its inputs\<close>

lemma lookup_archive_device_complete:
  assumes "dev \<in> snd ` set entries"
  shows "lookup_archive_device entries dev ad = lookup_archive_device entries dev ad'
         \<and> lookup_archive_device entries dev ad \<noteq> None"
proof -
  from assms have "filter (\<lambda>t. snd t = dev) entries \<noteq> []"
    by (auto simp: filter_empty_conv)
  then show ?thesis
    by (auto simp: lookup_archive_device_filter split: list.splits)
qed

lemma archive_device_at_complete:
  assumes "dev \<in> snd ` set entries"
  shows "archive_device_at entries ad dev = archive_device_at entries ad' dev
         \<and> archive_device_at entries ad dev \<noteq> None"
  using lookup_archive_device_complete [OF assms] by (cases dev) simp_all

text \<open>
  C8, as amended. The texts depend on the start time of the run, which the
  \<open>Description\<close> lines contain. For two runs with the same start time, the same library
  identifier and the same entries, where every position \<open>0..n-1\<close> has an entry with that drive
  index, the renderer raises no error, issues no command (the trace of commands and
  sleeps is unchanged) and writes the same \<open>n + 2\<close> files with the same texts, whatever the
  rest of the world and of the state is (the commands, the random source, the files
  written before, the value left in \<open>archive_device\<close>).
\<close>

theorem generate_library_deterministic:
  assumes "date_stamp e = date_stamp e'"
    and "{0..<length entries} \<subseteq> snd ` set entries"
  shows "fst (generate_library e (lib, entries) s) = Inr () \<and>
         fst (generate_library e' (lib, entries) s') = Inr () \<and>
         issued (snd (generate_library e (lib, entries) s)) = issued s \<and>
         issued (snd (generate_library e' (lib, entries) s')) = issued s' \<and>
         (\<exists>new. length new = length entries + 2 \<and>
                files (snd (generate_library e (lib, entries) s)) = files s @ new \<and>
                files (snd (generate_library e' (lib, entries) s')) = files s' @ new)"
proof -
  have eq: "\<And>n. director_file e' lib n = director_file e lib n"
    "\<And>n. autochanger_file e' lib n = autochanger_file e lib n"
    "\<And>dev a. device_file e' lib dev a = device_file e lib dev a"
    using assms(1)
    by (simp_all add: director_file_def autochanger_file_def device_file_def work_dir_def
        lower_name_and_time_def created_by_str_def del: str_nat.simps)
  have bound: "archive_device_at entries ad 0 \<noteq> None" if "entries \<noteq> []" for ad
  proof -
    have "0 \<in> snd ` set entries" using that assms(2) by auto
    then show ?thesis using archive_device_at_complete by blast
  qed
  have same: "map (\<lambda>dev. device_file e lib dev (the (archive_device_at entries (archive_device s') dev)))
                [0..<length entries] =
              map (\<lambda>dev. device_file e lib dev (the (archive_device_at entries (archive_device s) dev)))
                [0..<length entries]"
  proof (rule map_cong [OF refl])
    fix dev assume "dev \<in> set [0..<length entries]"
    then have "dev \<in> snd ` set entries" using assms(2) by auto
    then have "archive_device_at entries (archive_device s') dev =
               archive_device_at entries (archive_device s) dev"
      using archive_device_at_complete by blast
    then show "device_file e lib dev (the (archive_device_at entries (archive_device s') dev)) =
               device_file e lib dev (the (archive_device_at entries (archive_device s) dev))"
      by simp
  qed
  define new where "new = [director_file e lib (length entries)]
     @ map (\<lambda>dev. device_file e lib dev (the (archive_device_at entries (archive_device s) dev)))
           [0..<length entries]
     @ [autochanger_file e lib (length entries)]"
  have r: "generate_library e (lib, entries) s =
       (Inr (), s\<lparr>archive_device := archive_device_before entries (archive_device s) (length entries),
                  files := files s @ new\<rparr>)"
    using bound [of "archive_device s"]
    by (cases "entries = []") (simp_all add: generate_library_closed new_def)
  have r': "generate_library e' (lib, entries) s' =
       (Inr (), s'\<lparr>archive_device := archive_device_before entries (archive_device s') (length entries),
                   files := files s' @ new\<rparr>)"
    using bound [of "archive_device s'"]
    by (cases "entries = []") (simp_all add: generate_library_closed new_def eq same)
  have "length new = length entries + 2" by (simp add: new_def)
  then show ?thesis unfolding r r' by auto
qed

definition later_env :: env where
  "later_env = quiet_env\<lparr>date_stamp := ''20240214120000''\<rparr>"

definition other_env :: env where
  "other_env = quiet_env\<lparr>entropy := (\<lambda>h. 1), debian_version := True\<rparr>"

definition other_state :: state where
  "other_state = initial_state\<lparr>issued := [Cmd Uname], archive_device := Some ''X''\<rparr>"

theorem generate_library_deterministic_witness:
  "fst (generate_library quiet_env (''L'', [(''A'', 0)]) initial_state) = Inr () \<and>
   fst (generate_library other_env (''L'', [(''A'', 0)]) other_state) = Inr () \<and>
   issued (snd (generate_library quiet_env (''L'', [(''A'', 0)]) initial_state)) = [] \<and>
   issued (snd (generate_library other_env (''L'', [(''A'', 0)]) other_state)) = [Cmd Uname] \<and>
   (\<exists>new. length new = 3 \<and>
          files (snd (generate_library quiet_env (''L'', [(''A'', 0)]) initial_state)) = new \<and>
          files (snd (generate_library other_env (''L'', [(''A'', 0)]) other_state)) = new)"
  using generate_library_deterministic [of quiet_env other_env "[(''A'', 0)]" "''L''"
      initial_state other_state]
  by (simp add: quiet_env_def other_env_def initial_state_def other_state_def)

lemma generate_library_last_file:
  "snd (last (files (snd (generate_library e (''L'', [(''A'', 0)]) s)))) =
     storage_autochanger_txt (created_by_str e) ''L'' ([CHR 0x22] @ ''Autochanger_L_Dev0'' @ [CHR 0x22])"
  by (simp add: generate_library_closed autochanger_file_def autochanger_name_of_def
      digit_char_def replace.simps)

lemma autochanger_txt_dates:
  "storage_autochanger_txt (created_by_str quiet_env) ''L'' ([CHR 0x22] @ ''Autochanger_L_Dev0'' @ [CHR 0x22]) \<noteq>
   storage_autochanger_txt (created_by_str later_env) ''L'' ([CHR 0x22] @ ''Autochanger_L_Dev0'' @ [CHR 0x22])"
  by code_simp

text \<open>
  The claim C8 as stated fails: the same library and the same entries, rendered in two runs
  that start at different times, give different Autochanger texts.
\<close>

theorem render_depends_on_date_stamp:
  "snd (last (files (snd (generate_library quiet_env (''L'', [(''A'', 0)]) initial_state)))) \<noteq>
   snd (last (files (snd (generate_library later_env (''L'', [(''A'', 0)]) initial_state))))"
  by (simp only: generate_library_last_file autochanger_txt_dates not_False_eq_True)

section \<open>Counting the drives of a library\<close>

declare findall.simps [simp del]

text \<open>
  The specification counts the drive-element records of a status text. A record of a drive
  is a line \<open>Data Transfer Element <n>:...\<close>. In a valid status text the phrase
  \<open>Data Transfer Element\<close> stands only at the start of such records, and no record is there
  twice.
\<close>

definition is_drive_record :: "string \<Rightarrow> bool" where
  "is_drive_record l =
     (prefix ''Data Transfer Element '' l \<and>
      takeWhile is_digit (drop 22 l) \<noteq> [] \<and>
      prefix '':'' (dropWhile is_digit (drop 22 l)))"

definition drive_element_records :: "string \<Rightarrow> string list" where
  "drive_element_records status = filter is_drive_record (split_on newline status)"

definition valid_status :: "string \<Rightarrow> bool" where
  "valid_status status =
     (list_all (\<lambda>l. \<not> sublist ''Data Transfer Element'' (if is_drive_record l then tl l else l))
        (split_on newline status)
      \<and> distinct (drive_element_records status))"

lemma findall_Lit_Nil: "l \<noteq> [] \<Longrightarrow> findall [Lit l] [] = []"
  by (subst findall.simps) simp

lemma findall_Lit_Cons:
  assumes "l \<noteq> []"
  shows "findall [Lit l] (x # xs) =
     (if prefix l (x # xs) then l # findall [Lit l] (drop (length l) (x # xs))
      else findall [Lit l] xs)"
proof (cases "prefix l (x # xs)")
  case True
  then obtain r where r: "x # xs = l @ r" by (auto simp: prefix_def)
  have "length (drop (length l) (x # xs)) < length (x # xs)"
    using assms r by (metis append_eq_conv_conj length_append length_greater_0_conv less_add_same_cancel2)
  moreover have "take (length (x # xs) - length (drop (length l) (x # xs))) (x # xs) = l"
    using r by (metis append_eq_conv_conj add_diff_cancel_right' length_append)
  ultimately show ?thesis
    using True by (subst findall.simps) (simp del: drop_Suc_Cons take_Suc_Cons length_drop)
next
  case False
  then show ?thesis by (subst findall.simps) simp
qed

lemma findall_Lit_no_occurrence:
  assumes "\<not> sublist l s" and "l \<noteq> []"
  shows "findall [Lit l] s = []"
proof (rule findall_Nil)
  fix i
  have "\<not> prefix l (drop i s)"
    using assms(1) by (metis append_take_drop_id prefix_def sublist_appendI)
  then show "rmatch [Lit l] (drop i s) None [] = None"
    by simp
qed

lemma prefix_before_delim:
  assumes "prefix l (a @ d # b)" and "d \<notin> set l"
  shows "prefix l a"
proof -
  have "\<not> length a < length l"
  proof
    assume lt: "length a < length l"
    have "l ! length a = (a @ d # b) ! length a"
      using assms(1) lt by (metis prefix_def nth_append)
    then have "l ! length a = d" by simp
    then show False using assms(2) lt by (metis nth_mem)
  qed
  then have "length l \<le> length a" by simp
  then show ?thesis
    using assms(1) by (metis prefix_append prefix_length_prefix prefix_order.order_refl prefixI)
qed

lemma findall_Lit_line_break:
  assumes "l \<noteq> []" and "d \<notin> set l"
  shows "findall [Lit l] (a @ d # b) = findall [Lit l] a @ findall [Lit l] b"
proof (induction a rule: length_induct)
  case (1 a)
  have nd: "\<not> prefix l (d # b)"
    using assms by (cases l) auto
  show ?case
  proof (cases a)
    case Nil
    then show ?thesis
      using nd assms(1) by (simp add: findall_Lit_Cons findall_Lit_Nil)
  next
    case (Cons x xs)
    show ?thesis
    proof (cases "prefix l (a @ d # b)")
      case True
      then have pa: "prefix l a"
        using assms(2) by (rule prefix_before_delim)
      then have len: "length l \<le> length a"
        by (rule prefix_length_le)
      have "length (drop (length l) a) < length a"
        using assms(1) Cons by simp
      then have "findall [Lit l] (drop (length l) a @ d # b) =
                 findall [Lit l] (drop (length l) a) @ findall [Lit l] b"
        using 1 by blast
      moreover have "drop (length l) (a @ d # b) = drop (length l) a @ d # b"
        using len by simp
      ultimately show ?thesis
        using True pa Cons findall_Lit_Cons [OF assms(1), of x "xs @ d # b"]
          findall_Lit_Cons [OF assms(1), of x xs]
        by (simp del: drop_Suc_Cons)
    next
      case False
      then have "\<not> prefix l a"
        by (metis prefix_prefix)
      moreover have "findall [Lit l] (xs @ d # b) = findall [Lit l] xs @ findall [Lit l] b"
        using 1 Cons by simp
      ultimately show ?thesis
        using False Cons findall_Lit_Cons [OF assms(1), of x "xs @ d # b"]
          findall_Lit_Cons [OF assms(1), of x xs]
        by simp
    qed
  qed
qed


lemma findall_Lit_lines:
  assumes "l \<noteq> []" and "d \<notin> set l"
  shows "length (findall [Lit l] t) =
           sum_list (map (\<lambda>x. length (findall [Lit l] x)) (split_on d t))"
proof (induction t rule: length_induct)
  case (1 t)
  show ?case
  proof (cases "d \<in> set t")
    case False
    then show ?thesis by (simp add: split_on_no_delim)
  next
    case True
    then obtain a b where t: "t = a @ d # b" and a: "d \<notin> set a"
      by (meson split_list_first)
    have "length (findall [Lit l] b) =
            sum_list (map (\<lambda>x. length (findall [Lit l] x)) (split_on d b))"
      using 1 t by simp
    then show ?thesis
      using a by (simp add: t findall_Lit_line_break [OF assms] split_on_append split_on_no_delim)
  qed
qed

lemma drive_record_line_count:
  assumes "\<not> sublist ''Data Transfer Element'' (if is_drive_record x then tl x else x)"
  shows "length (findall [Lit ''Data Transfer Element''] x) = (if is_drive_record x then 1 else 0)"
proof (cases "is_drive_record x")
  case False
  then show ?thesis
    using assms by (simp add: findall_Lit_no_occurrence)
next
  case True
  then have "prefix (''Data Transfer Element'' @ '' '') x"
    by (simp add: is_drive_record_def)
  then have p: "prefix ''Data Transfer Element'' x"
    using append_prefixD by blast
  then obtain c cs where x: "x = c # cs"
    by (cases x) auto
  have "sublist (drop (length ''Data Transfer Element'') x) (tl x)"
    using x by (simp add: sublist_drop del: length_Cons)
  moreover have "\<not> sublist ''Data Transfer Element'' (tl x)"
    using assms True by simp
  ultimately have "\<not> sublist ''Data Transfer Element'' (drop (length ''Data Transfer Element'') x)"
    using sublist_order.order_trans by blast
  then have "findall [Lit ''Data Transfer Element''] (drop (length ''Data Transfer Element'') x) = []"
    by (intro findall_Lit_no_occurrence) simp_all
  then show ?thesis
    using True p x findall_Lit_Cons [of "''Data Transfer Element''" c cs]
    by (simp del: Cons_prefix_Cons drop_Suc_Cons length_Cons)
qed

lemma sum_list_indicator:
  "sum_list (map (\<lambda>x. if P x then 1 else 0) xs) = length (filter P xs)"
  by (induction xs) auto

text \<open>
  C7. For a valid status text the count that the script uses as \<open>num_drives\<close> (a length,
  hence not negative) is the number of distinct drive-element records of the text.
\<close>

theorem count_drives_valid_status:
  assumes "valid_status status"
  shows "0 \<le> count_drives status \<and>
         count_drives status = card (set (drive_element_records status))"
proof -
  have "count_drives status =
          sum_list (map (\<lambda>x. length (findall [Lit ''Data Transfer Element''] x))
                      (split_on newline status))"
    unfolding count_drives_def drive_element_pat_def
    by (rule findall_Lit_lines) (simp_all add: newline_def)
  also have "\<dots> = sum_list (map (\<lambda>x. if is_drive_record x then 1 else 0) (split_on newline status))"
    using assms
    by (intro arg_cong [where f = sum_list] map_cong refl drive_record_line_count)
       (auto simp: valid_status_def list_all_iff)
  also have "\<dots> = length (drive_element_records status)"
    by (simp add: sum_list_indicator drive_element_records_def)
  also have "\<dots> = card (set (drive_element_records status))"
    using assms by (simp add: valid_status_def distinct_card)
  finally show ?thesis by simp
qed

definition two_drive_status :: string where
  "two_drive_status =
     ''Data Transfer Element 0:Empty'' @ [newline] @
     ''Data Transfer Element 1:Full (Storage Element 3 Loaded):VolumeTag = E01003L4'' @ [newline] @
     ''      Storage Element 1:Full :VolumeTag=E01001L4'' @ [newline]"

lemma two_drive_status_valid: "valid_status two_drive_status"
  by code_simp

theorem count_drives_valid_status_witness:
  "valid_status two_drive_status \<and> count_drives two_drive_status = 2 \<and>
   card (set (drive_element_records two_drive_status)) = 2"
proof -
  have "count_drives two_drive_status = 2"
    by code_simp
  then show ?thesis
    using count_drives_valid_status [OF two_drive_status_valid] two_drive_status_valid by simp
qed

section \<open>A full drive without a volume tag\<close>

text \<open>
  \<open>mtx\<close> prints the record of a full drive without \<open>:VolumeTag = ...\<close> when the tape has no
  bar code label. A world whose changer has such a tape in drive 0, loaded from slot 3:
\<close>

definition unlabelled_status :: string where
  "unlabelled_status =
     ''Data Transfer Element 0:Full (Storage Element 3 Loaded)'' @ [newline] @
     ''      Storage Element 3:Empty'' @ [newline]"

definition unlabelled_env :: env where
  "unlabelled_env = quiet_env\<lparr>shell := (\<lambda>h c. \<lparr>returncode = 0, stdout = unlabelled_status, stderr = []\<rparr>)\<rparr>"

text \<open>
  C6 fails on the code: the doc string of \<open>loaded\<close> promises the slot and the volume of a
  loaded drive. For the record above the substitution does not match, and the function
  returns the first two words of the record instead of slot \<open>3\<close>.
\<close>

theorem loaded_without_volume_tag:
  "fst (loaded unlabelled_env ''L'' 0 initial_state) = Inr (''Data'', ''Transfer'')"
  by code_simp

section \<open>The discovery of one drive index\<close>

declare unload_drives.simps [simp del]
declare identify_drives.simps [simp del]

text \<open>
  \<open>not_ready_run e ready h ds\<close>: asked one after the other, starting after the events \<open>h\<close>,
  every drive of \<open>ds\<close> answers its status query with exit code 0 and a text that does not
  match the ready marker.
\<close>

fun not_ready_run :: "env \<Rightarrow> string \<Rightarrow> event list \<Rightarrow> string list \<Rightarrow> bool" where
  "not_ready_run e ready h [] = True"
| "not_ready_run e ready h (d # ds) =
     (returncode (shell e h (cmd_str (MtStatus d))) = 0 \<and>
      \<not> is_ready ready (shell e h (cmd_str (MtStatus d))) \<and>
      not_ready_run e ready (h @ [Cmd (MtStatus d)]) ds)"

definition status_queries :: "string list \<Rightarrow> event list" where
  "status_queries ds = map (\<lambda>d. Cmd (MtStatus d)) ds"

lemma unload_eq:
  "unload e lib slot drive s =
     (let rc = returncode (shell e (issued s) (cmd_str (MtxUnload lib slot drive)))
      in (if rc \<noteq> 0 then Inl (Exit rc) else Inr (),
          s\<lparr>issued := issued s @ [Cmd (MtxUnload lib slot drive)]\<rparr>))"
  by (simp add: unload_def get_shell_result_def chk_cmd_result_def and_then_def ret_def
      raise_def Let_def)

lemma scan_drives_first_ready:
  assumes "not_ready_run e ready (issued s) pre"
    and "returncode (shell e (issued s @ status_queries pre) (cmd_str (MtStatus d))) = 0"
    and "is_ready ready (shell e (issued s @ status_queries pre) (cmd_str (MtStatus d)))"
  shows "scan_drives e ready lib slot drive_index (pre @ d # post) s =
           unload e lib slot drive_index
             (s\<lparr>issued := issued s @ status_queries (pre @ [d]),
                lib_dict := dict_append lib (d, drive_index) (lib_dict s),
                drives_byid_nodes_lst := remove1 d (drives_byid_nodes_lst s)\<rparr>)"
  using assms
proof (induction pre arbitrary: s)
  case Nil
  then show ?case
    by (simp add: status_queries_def and_then_def lib_or_drv_status_eq record_drive_def Let_def)
next
  case (Cons p pre)
  define s1 where "s1 = s\<lparr>issued := issued s @ [Cmd (MtStatus p)]\<rparr>"
  have step: "scan_drives e ready lib slot drive_index ((p # pre) @ d # post) s =
              scan_drives e ready lib slot drive_index (pre @ d # post) s1"
    using Cons.prems(1) by (simp add: and_then_def lib_or_drv_status_eq Let_def s1_def)
  have "scan_drives e ready lib slot drive_index (pre @ d # post) s1 =
           unload e lib slot drive_index
             (s1\<lparr>issued := issued s1 @ status_queries (pre @ [d]),
                lib_dict := dict_append lib (d, drive_index) (lib_dict s1),
                drives_byid_nodes_lst := remove1 d (drives_byid_nodes_lst s1)\<rparr>)"
    using Cons.prems by (intro Cons.IH) (simp_all add: s1_def status_queries_def)
  then show ?case
    unfolding step by (simp add: s1_def status_queries_def)
qed

lemma identify_drive_index_round:
  assumes "get_random_slot e lib s = (Inr (slot, vol), s1)"
    and "returncode (shell e (issued s1) (cmd_str (MtxLoad lib slot drive_index))) = 0"
    and "drives_byid_nodes_lst s1 = pre @ d # post"
    and "h = issued s1 @ [Cmd (MtxLoad lib slot drive_index), Sleep (sleep_secs cfg)]"
    and "not_ready_run e ready h pre"
    and "returncode (shell e (h @ status_queries pre) (cmd_str (MtStatus d))) = 0"
    and "is_ready ready (shell e (h @ status_queries pre) (cmd_str (MtStatus d)))"
  shows "identify_drive_index e cfg ready lib drive_index s =
           (let rc = returncode (shell e (h @ status_queries (pre @ [d]))
                                   (cmd_str (MtxUnload lib slot drive_index)))
            in (if rc \<noteq> 0 then Inl (Exit rc) else Inr (),
                s1\<lparr>issued := h @ status_queries (pre @ [d])
                               @ [Cmd (MtxUnload lib slot drive_index)],
                   lib_dict := dict_append lib (d, drive_index) (lib_dict s1),
                   drives_byid_nodes_lst := remove1 d (pre @ d # post)\<rparr>))"
proof -
  define s2 where "s2 = s1\<lparr>issued := h\<rparr>"
  have "identify_drive_index e cfg ready lib drive_index s =
          scan_drives e ready lib slot drive_index (pre @ d # post) s2"
    using assms(1-4)
    by (simp add: identify_drive_index_def and_then_def get_shell_result_def chk_cmd_result_def
        sleep_def ret_def s2_def)
  also have "\<dots> = unload e lib slot drive_index
             (s2\<lparr>issued := issued s2 @ status_queries (pre @ [d]),
                lib_dict := dict_append lib (d, drive_index) (lib_dict s2),
                drives_byid_nodes_lst := remove1 d (drives_byid_nodes_lst s2)\<rparr>)"
    using assms(5-7) by (intro scan_drives_first_ready) (simp_all add: s2_def)
  finally show ?thesis
    using assms(3) by (simp add: unload_eq s2_def Let_def)
qed

text \<open>\<open>for_each xs f\<close>: the action \<open>f\<close> for every element of \<open>xs\<close>, in the order of the list.\<close>

fun for_each :: "'a list \<Rightarrow> ('a \<Rightarrow> unit prog) \<Rightarrow> unit prog" where
  "for_each [] f = ret ()"
| "for_each (x # xs) f = and_then (f x) (\<lambda>_. for_each xs f)"

lemma and_then_assoc:
  "and_then (and_then m f) g = and_then m (\<lambda>x. and_then (f x) g)"
  by (rule ext) (simp add: and_then_def split: prod.splits sum.splits)

lemma ret_and_then: "and_then (ret x) f = f x"
  by (rule ext) (simp add: and_then_def ret_def)

lemma identify_drives_for_each:
  "identify_drives e cfg ready lib i n = for_each [i..<n] (identify_drive_index e cfg ready lib)"
proof (induction "n - i" arbitrary: i)
  case 0
  then show ?case by (intro ext) (subst identify_drives.simps, simp)
next
  case (Suc m)
  then have lt: "i < n" by simp
  have "identify_drives e cfg ready lib (Suc i) n =
        for_each [Suc i..<n] (identify_drive_index e cfg ready lib)"
    using Suc by simp
  then show ?case
    using lt by (intro ext) (subst identify_drives.simps, simp add: upt_conv_Cons)
qed

lemma discover_libs_for_each:
  "discover_libs e cfg ready libs =
     for_each libs (\<lambda>l. and_then (lib_or_drv_status e (MtxStatus l)) (\<lambda>result.
        if l \<in> set (libs_to_skip cfg) then ret ()
        else for_each [0..<count_drives (stdout result)] (identify_drive_index e cfg ready l)))"
proof (induction libs)
  case Nil
  then show ?case by simp
next
  case (Cons l libs)
  then show ?case
    by (simp add: and_then_assoc identify_drives_for_each if_distrib [of "\<lambda>m. and_then m _"]
        cong: if_cong)
qed

text \<open>
  C1. The discovery phase asks every library of the list for its status; for a library
  that is not in \<open>libs_to_skip\<close> it then runs one round for every drive index
  \<open>0, \<dots>, count - 1\<close>, in this order, where \<open>count\<close> is the number of drives counted in the
  status text. In one round a slot is picked and loaded into the drive index, the script
  waits, and then asks the remaining identifiers in the order of the list. When the
  identifiers \<open>pre\<close> answer not ready and the next one, \<open>d\<close>, is the first that answers ready,
  the round records \<open>(d, drive_index)\<close> at the end of the entries of the library, removes \<open>d\<close>
  from the list, issues the unload of the slot from the drive index and asks none of the
  identifiers \<open>post\<close> after \<open>d\<close>. The result of the round is the result of the unload.
\<close>

theorem discovery_first_match:
  assumes "get_random_slot e lib s = (Inr (slot, vol), s1)"
    and "returncode (shell e (issued s1) (cmd_str (MtxLoad lib slot drive_index))) = 0"
    and "drives_byid_nodes_lst s1 = pre @ d # post"
    and "h = issued s1 @ [Cmd (MtxLoad lib slot drive_index), Sleep (sleep_secs cfg)]"
    and "not_ready_run e ready h pre"
    and "returncode (shell e (h @ status_queries pre) (cmd_str (MtStatus d))) = 0"
    and "is_ready ready (shell e (h @ status_queries pre) (cmd_str (MtStatus d)))"
  shows "discover_libs e cfg ready libs =
           for_each libs (\<lambda>l. and_then (lib_or_drv_status e (MtxStatus l)) (\<lambda>result.
              if l \<in> set (libs_to_skip cfg) then ret ()
              else for_each [0..<count_drives (stdout result)]
                     (identify_drive_index e cfg ready l)))
         \<and> identify_drive_index e cfg ready lib drive_index s =
           (let rc = returncode (shell e (h @ status_queries (pre @ [d]))
                                   (cmd_str (MtxUnload lib slot drive_index)))
            in (if rc \<noteq> 0 then Inl (Exit rc) else Inr (),
                s1\<lparr>issued := h @ status_queries (pre @ [d])
                               @ [Cmd (MtxUnload lib slot drive_index)],
                   lib_dict := dict_append lib (d, drive_index) (lib_dict s1),
                   drives_byid_nodes_lst := remove1 d (pre @ d # post)\<rparr>))"
  using discover_libs_for_each [of e cfg ready libs] identify_drive_index_round [OF assms]
  by (rule conjI)

section \<open>A laboratory world\<close>

text \<open>
  A changer \<open>lib\<close> with one tape, in slot 1, whose status text is \<open>status\<close>, and drives wired
  to drive indexes: a drive answers \<open>ONLINE\<close> while the index it is wired to is loaded.
\<close>

fun in_drive :: "event list \<Rightarrow> nat option \<Rightarrow> nat option" where
  "in_drive [] cur = cur"
| "in_drive (Cmd (MtxLoad lib slot i) # es) cur = in_drive es (Some i)"
| "in_drive (Cmd (MtxUnload lib slot i) # es) cur = in_drive es None"
| "in_drive (ev # es) cur = in_drive es cur"

definition ok_result :: "string \<Rightarrow> shell_result" where
  "ok_result out = \<lparr>returncode = 0, stdout = out, stderr = []\<rparr>"

definition two_empty_drives :: string where
  "two_empty_drives =
     ''Data Transfer Element 0:Empty'' @ [newline] @
     ''Data Transfer Element 1:Empty'' @ [newline] @
     ''      Storage Element 1:Full :VolumeTag=E01001L4 '' @ [newline]"

definition lab_shell :: "string \<Rightarrow> string \<Rightarrow> (string \<times> nat) list \<Rightarrow> event list \<Rightarrow> string
    \<Rightarrow> shell_result" where
  "lab_shell lib status wiring h c =
     (if c = cmd_str (MtxStatus lib) then ok_result status
      else if c = cmd_str (MtxFullSlots lib)
        then ok_result (''      Storage Element 1:Full :VolumeTag=E01001L4 '' @ [newline])
      else (case find (\<lambda>w. c = cmd_str (MtStatus (fst w))) wiring of
              Some w \<Rightarrow> ok_result (if in_drive h None = Some (snd w) then ''ONLINE'' else ''DR_OPEN'')
            | None \<Rightarrow> ok_result []))"

definition lab_env :: "string \<Rightarrow> string \<Rightarrow> (string \<times> nat) list \<Rightarrow> env" where
  "lab_env lib status wiring = quiet_env\<lparr>shell := lab_shell lib status wiring\<rparr>"

definition script_config :: config where
  "script_config = \<lparr>sleep_secs = 10, offline = False,
                     libs_to_skip = [''scsi-SSTK_L700_XYZZY_A'', ''otherLibToSkip'']\<rparr>"

definition two_drives_start :: state where
  "two_drives_start = initial_state\<lparr>drives_byid_nodes_lst := [''A'', ''B'']\<rparr>"

definition three_drives_start :: state where
  "three_drives_start = initial_state\<lparr>drives_byid_nodes_lst := [''A'', ''B'', ''C'']\<rparr>"

definition lab :: env where
  "lab = lab_env ''L'' two_empty_drives [(''A'', 1), (''B'', 0)]"

theorem discovery_first_match_witness:
  "discover_libs lab script_config ''ONLINE'' [''otherLibToSkip'', ''L''] three_drives_start =
     (Inr (), \<lparr>issued = [Cmd (MtxStatus ''otherLibToSkip''), Cmd (MtxStatus ''L''),
                          Cmd (MtxFullSlots ''L''), Cmd (MtxLoad ''L'' ''1'' 0), Sleep 10,
                          Cmd (MtStatus ''A''), Cmd (MtStatus ''B''), Cmd (MtxUnload ''L'' ''1'' 0),
                          Cmd (MtxFullSlots ''L''), Cmd (MtxLoad ''L'' ''1'' 1), Sleep 10,
                          Cmd (MtStatus ''A''), Cmd (MtxUnload ''L'' ''1'' 1)],
                drives_byid_nodes_lst = [''C''],
                lib_dict = [(''L'', [(''B'', 0), (''A'', 1)])],
                archive_device = None, files = []\<rparr>)"
proof -
  let ?q0 = "[Cmd (MtxStatus ''otherLibToSkip'')]"
  let ?q1 = "?q0 @ [Cmd (MtxStatus ''L'')]"
  let ?s1 = "three_drives_start\<lparr>issued := ?q0\<rparr>"
  let ?s2 = "three_drives_start\<lparr>issued := ?q1\<rparr>"
  let ?g0 = "?q1 @ [Cmd (MtxFullSlots ''L'')]"
  let ?h0 = "?g0 @ [Cmd (MtxLoad ''L'' ''1'' 0), Sleep 10]"
  let ?u0 = "?h0 @ [Cmd (MtStatus ''A''), Cmd (MtStatus ''B''), Cmd (MtxUnload ''L'' ''1'' 0)]"
  let ?s3 = "\<lparr>issued = ?u0, drives_byid_nodes_lst = [''A'', ''C''],
              lib_dict = [(''L'', [(''B'', 0)])], archive_device = None, files = []\<rparr>"
  let ?g1 = "?u0 @ [Cmd (MtxFullSlots ''L'')]"
  let ?h1 = "?g1 @ [Cmd (MtxLoad ''L'' ''1'' 1), Sleep 10]"
  let ?u1 = "?h1 @ [Cmd (MtStatus ''A''), Cmd (MtxUnload ''L'' ''1'' 1)]"
  let ?s4 = "\<lparr>issued = ?u1, drives_byid_nodes_lst = [''C''],
              lib_dict = [(''L'', [(''B'', 0), (''A'', 1)])], archive_device = None, files = []\<rparr>"
  have q0: "lib_or_drv_status lab (MtxStatus ''otherLibToSkip'') three_drives_start =
              (Inr (ok_result []), ?s1)"
    by code_simp
  have skip: "''otherLibToSkip'' \<in> set (libs_to_skip script_config)"
    by code_simp
  have q1: "lib_or_drv_status lab (MtxStatus ''L'') ?s1 = (Inr (ok_result two_empty_drives), ?s2)"
    by code_simp
  have scan: "''L'' \<notin> set (libs_to_skip script_config)"
    by code_simp
  have count: "[0..<count_drives (stdout (ok_result two_empty_drives))] = [0, 1]"
    by code_simp
  have a1: "get_random_slot lab ''L'' ?s2 = (Inr (''1'', ''E01001L4''), ?s2\<lparr>issued := ?g0\<rparr>)"
    by code_simp
  have a2: "returncode (shell lab (issued (?s2\<lparr>issued := ?g0\<rparr>)) (cmd_str (MtxLoad ''L'' ''1'' 0))) = 0"
    by code_simp
  have a3: "drives_byid_nodes_lst (?s2\<lparr>issued := ?g0\<rparr>) = [''A''] @ ''B'' # [''C'']"
    by code_simp
  have a4: "?h0 = issued (?s2\<lparr>issued := ?g0\<rparr>)
                   @ [Cmd (MtxLoad ''L'' ''1'' 0), Sleep (sleep_secs script_config)]"
    by code_simp
  have a5: "not_ready_run lab ''ONLINE'' ?h0 [''A'']"
    by code_simp
  have a6: "returncode (shell lab (?h0 @ status_queries [''A'']) (cmd_str (MtStatus ''B''))) = 0"
    by code_simp
  have a7: "is_ready ''ONLINE'' (shell lab (?h0 @ status_queries [''A'']) (cmd_str (MtStatus ''B'')))"
    by code_simp
  have a8: "returncode (shell lab (?h0 @ status_queries ([''A''] @ [''B'']))
              (cmd_str (MtxUnload ''L'' ''1'' 0))) = 0"
    by code_simp
  have b1: "get_random_slot lab ''L'' ?s3 = (Inr (''1'', ''E01001L4''), ?s3\<lparr>issued := ?g1\<rparr>)"
    by code_simp
  have b2: "returncode (shell lab (issued (?s3\<lparr>issued := ?g1\<rparr>)) (cmd_str (MtxLoad ''L'' ''1'' 1))) = 0"
    by code_simp
  have b3: "drives_byid_nodes_lst (?s3\<lparr>issued := ?g1\<rparr>) = [] @ ''A'' # [''C'']"
    by code_simp
  have b4: "?h1 = issued (?s3\<lparr>issued := ?g1\<rparr>)
                   @ [Cmd (MtxLoad ''L'' ''1'' 1), Sleep (sleep_secs script_config)]"
    by code_simp
  have b5: "not_ready_run lab ''ONLINE'' ?h1 []"
    by code_simp
  have b6: "returncode (shell lab (?h1 @ status_queries []) (cmd_str (MtStatus ''A''))) = 0"
    by code_simp
  have b7: "is_ready ''ONLINE'' (shell lab (?h1 @ status_queries []) (cmd_str (MtStatus ''A'')))"
    by code_simp
  have b8: "returncode (shell lab (?h1 @ status_queries ([] @ [''A'']))
              (cmd_str (MtxUnload ''L'' ''1'' 1))) = 0"
    by code_simp
  note round0 = discovery_first_match [OF a1 a2 a3 a4 a5 a6 a7,
      of "[''otherLibToSkip'', ''L'']"]
  note round1 = discovery_first_match [OF b1 b2 b3 b4 b5 b6 b7, of "[]"]
  have r0: "identify_drive_index lab script_config ''ONLINE'' ''L'' 0 ?s2 = (Inr (), ?s3)"
    using round0 a8
    by (simp add: Let_def status_queries_def three_drives_start_def initial_state_def)
  have r1: "identify_drive_index lab script_config ''ONLINE'' ''L'' 1 ?s3 = (Inr (), ?s4)"
    using round1 b8
    by (simp add: Let_def status_queries_def)
  have "discover_libs lab script_config ''ONLINE'' [''otherLibToSkip'', ''L''] three_drives_start =
          (Inr (), ?s4)"
    using round0 q0 q1 skip scan count r0 r1
    by (simp add: and_then_def ret_def)
  then show ?thesis by simp
qed

end
